theory Spec2Isabelle
  imports Complex_Main "HOL-Library.Word"
begin

section \<open>Host telemetry collectors (cpustat, fsstat, cgroup, pidstat)\<close>

text \<open>
  A shallow embedding of the Go collectors: \<^verbatim>\<open>misc.ParseUint\<close>,
  \<^verbatim>\<open>misc.ReadUintFromFile\<close>, the Linux and Darwin \<^verbatim>\<open>cpustat\<close> collectors,
  \<^verbatim>\<open>fsstat\<close>, the cgroup collector and the Darwin \<^verbatim>\<open>pidstat\<close> collector.
  Every mutation of a struct behind a pointer is explicit state passing, every
  read of the operating system is an explicit argument, and a Go run-time panic
  (index out of range) is the \<open>Inl\<close> branch of a sum.
\<close>

subsection \<open>float64\<close>

text \<open>
  Go's \<^verbatim>\<open>float64\<close> with its special values. Finite values are carried as
  reals: the rounding of a finite result, its overflow to an infinity and the
  sign of zero are not modelled (every zero is \<open>+0\<close>). The special values
  follow IEEE 754: NaN is absorbing, \<open>\<infinity> - \<infinity>\<close>, \<open>0 * \<infinity>\<close>, \<open>0 / 0\<close> and
  \<open>\<infinity> / \<infinity>\<close> are NaN, \<open>x / 0\<close> is an infinity for \<open>x \<noteq> 0\<close>, no comparison with
  NaN holds except \<^verbatim>\<open>!=\<close>, which always holds.
\<close>

datatype float64 = NaN | PInf | NInf | Fin real

fun f_neg :: "float64 \<Rightarrow> float64" where
  "f_neg NaN = NaN"
| "f_neg PInf = NInf"
| "f_neg NInf = PInf"
| "f_neg (Fin a) = Fin (- a)"

fun f_add :: "float64 \<Rightarrow> float64 \<Rightarrow> float64" where
  "f_add NaN y = NaN"
| "f_add x NaN = NaN"
| "f_add (Fin a) (Fin b) = Fin (a + b)"
| "f_add (Fin a) y = y"
| "f_add x (Fin b) = x"
| "f_add x y = (if x = y then x else NaN)"

definition f_sub :: "float64 \<Rightarrow> float64 \<Rightarrow> float64" where
  "f_sub x y = f_add x (f_neg y)"

fun f_mul :: "float64 \<Rightarrow> float64 \<Rightarrow> float64" where
  "f_mul NaN y = NaN"
| "f_mul x NaN = NaN"
| "f_mul (Fin a) (Fin b) = Fin (a * b)"
| "f_mul (Fin a) y = (if a = 0 then NaN else if (0 < a) = (y = PInf) then PInf else NInf)"
| "f_mul x (Fin b) = (if b = 0 then NaN else if (0 < b) = (x = PInf) then PInf else NInf)"
| "f_mul x y = (if x = y then PInf else NInf)"

fun f_div :: "float64 \<Rightarrow> float64 \<Rightarrow> float64" where
  "f_div NaN y = NaN"
| "f_div x NaN = NaN"
| "f_div (Fin a) (Fin b) =
     (if b = 0 then (if a = 0 then NaN else if 0 < a then PInf else NInf)
      else Fin (a / b))"
| "f_div (Fin a) y = Fin 0"
| "f_div x (Fin b) = (if (0 \<le> b) = (x = PInf) then PInf else NInf)"
| "f_div x y = NaN"

text \<open>The comparisons \<^verbatim>\<open>x > y\<close> and \<^verbatim>\<open>x != y\<close>.\<close>

fun f_gt :: "float64 \<Rightarrow> float64 \<Rightarrow> bool" where
  "f_gt NaN y = False"
| "f_gt x NaN = False"
| "f_gt (Fin a) (Fin b) = (b < a)"
| "f_gt x NInf = (x \<noteq> NInf)"
| "f_gt PInf y = (y \<noteq> PInf)"
| "f_gt x y = False"

fun f_ne :: "float64 \<Rightarrow> float64 \<Rightarrow> bool" where
  "f_ne NaN y = True"
| "f_ne x NaN = True"
| "f_ne x y = (x \<noteq> y)"

type_synonym uint64 = "64 word"
type_synonym uint32 = "32 word"

text \<open>The conversion \<^verbatim>\<open>float64(x)\<close> of an unsigned integer.\<close>

definition float64_of_uint64 :: "uint64 \<Rightarrow> float64" where
  "float64_of_uint64 x = Fin (real (unat x))"

subsection \<open>The metrics library: Counter and Gauge\<close>

text \<open>
  Modelled from the spec: the \<^verbatim>\<open>Counter\<close> and \<^verbatim>\<open>Gauge\<close> primitives of the
  metrics library (\<^verbatim>\<open>github.com/measure/metrics\<close>), which is not among the
  sources. A counter keeps its last two samples, each a value with the clock
  reading (nanoseconds) of its \<^verbatim>\<open>Set\<close>. \<^verbatim>\<open>ComputeRate\<close> is
  (current - previous) / elapsed seconds, and NaN before the second \<^verbatim>\<open>Set\<close> or
  when no time has elapsed. A counter that drops gives a negative rate. A gauge
  holds a \<^verbatim>\<open>float64\<close>, zero-valued until its first \<^verbatim>\<open>Set\<close>.
\<close>

record Counter =
  cur :: "(uint64 \<times> nat) option"
  prev :: "(uint64 \<times> nat) option"

definition NewCounter :: Counter where
  "NewCounter = \<lparr>cur = None, prev = None\<rparr>"

definition Counter_Set :: "uint64 \<Rightarrow> nat \<Rightarrow> Counter \<Rightarrow> Counter" where
  "Counter_Set x now c = \<lparr>cur = Some (x, now), prev = cur c\<rparr>"

definition Counter_Get :: "Counter \<Rightarrow> uint64" where
  "Counter_Get c = (case cur c of None \<Rightarrow> 0 | Some (x, t) \<Rightarrow> x)"

definition ComputeRate :: "Counter \<Rightarrow> float64" where
  "ComputeRate c =
     (case cur c of
        None \<Rightarrow> NaN
      | Some (x, t) \<Rightarrow>
         (case prev c of
            None \<Rightarrow> NaN
          | Some (y, t0) \<Rightarrow>
             if t \<le> t0 then NaN
             else Fin ((real (unat x) - real (unat y)) / (real (t - t0) / 1000000000))))"

type_synonym Gauge = float64

definition NewGauge :: Gauge where
  "NewGauge = Fin 0"

subsection \<open>misc.ParseUint\<close>

text \<open>
  \<^verbatim>\<open>strconv.ParseUint(in, 10, 64)\<close> of the Go standard library: the string must
  be a non-empty run of the digits 0 to 9 (no sign, no space, no underscore)
  whose value is below \<open>2^64\<close>; otherwise it returns an error, here \<open>None\<close>.
\<close>

definition is_digit :: "char \<Rightarrow> bool" where
  "is_digit c = (48 \<le> (of_char c :: nat) \<and> (of_char c :: nat) \<le> 57)"

definition digits_value :: "string \<Rightarrow> nat" where
  "digits_value s = foldl (\<lambda>acc c. acc * 10 + (of_char c - 48)) 0 s"

definition strconv_ParseUint :: "string \<Rightarrow> uint64 option" where
  "strconv_ParseUint s =
     (if s = [] \<or> \<not> list_all is_digit s then None
      else if 2 ^ 64 \<le> digits_value s then None
      else Some (word_of_nat (digits_value s)))"

text \<open>\<^verbatim>\<open>misc.ParseUint\<close>: the error becomes the value 0.\<close>

definition ParseUint :: "string \<Rightarrow> uint64" where
  "ParseUint s = (case strconv_ParseUint s of None \<Rightarrow> 0 | Some out \<Rightarrow> out)"

subsection \<open>cpustat on Linux: PerCPU\<close>

record PerCPU =
  User :: Counter
  UserLowPrio :: Counter
  System :: Counter
  Idle :: Counter
  Iowait :: Counter
  Irq :: Counter
  Softirq :: Counter
  Steal :: Counter
  Guest :: Counter
  Total :: Counter
  UserspacePct :: Gauge
  KernelPct :: Gauge
  UsagePct :: Gauge

text \<open>\<^verbatim>\<open>NewPerCPU\<close>: \<^verbatim>\<open>misc.InitializeMetrics\<close> allocates one metric per field.\<close>

definition NewPerCPU :: PerCPU where
  "NewPerCPU =
     \<lparr>User = NewCounter, UserLowPrio = NewCounter, System = NewCounter,
      Idle = NewCounter, Iowait = NewCounter, Irq = NewCounter,
      Softirq = NewCounter, Steal = NewCounter, Guest = NewCounter,
      Total = NewCounter, UserspacePct = NewGauge, KernelPct = NewGauge,
      UsagePct = NewGauge\<rparr>"

definition PerCPU_Usage :: "PerCPU \<Rightarrow> float64" where
  "PerCPU_Usage o' =
     (let u = ComputeRate (User o');
          n = ComputeRate (UserLowPrio o');
          s = ComputeRate (System o');
          t = ComputeRate (Total o')
      in if f_ne u NaN \<and> f_ne n NaN \<and> f_ne s NaN \<and> f_ne t NaN \<and> f_gt t (Fin 0)
         then f_mul (f_div (f_add (f_add u s) n) t) (Fin 100)
         else NaN)"

definition PerCPU_UserSpace :: "PerCPU \<Rightarrow> float64" where
  "PerCPU_UserSpace o' =
     (let u = ComputeRate (User o');
          n = ComputeRate (UserLowPrio o');
          t = ComputeRate (Total o')
      in if f_ne u NaN \<and> f_ne t NaN \<and> f_ne n NaN \<and> f_gt t (Fin 0)
         then f_mul (f_div (f_add u n) t) (Fin 100)
         else NaN)"

definition PerCPU_Kernel :: "PerCPU \<Rightarrow> float64" where
  "PerCPU_Kernel o' =
     (let s = ComputeRate (System o');
          t = ComputeRate (Total o')
      in if f_ne s NaN \<and> f_ne t NaN \<and> f_gt t (Fin 0)
         then f_mul (f_div s t) (Fin 100)
         else NaN)"

text \<open>A Go run-time panic. No collector recovers: the panic ends the process.\<close>

datatype panic = IndexOutOfRange

text \<open>
  \<^verbatim>\<open>regexp.MustCompile("\\s+").Split(line, -1)\<close>: the pieces between the maximal
  runs of white space (tab, line feed, form feed, carriage return, space). A
  leading or trailing run gives an empty first or last piece, and the result
  is never empty. \<open>split_go inws piece rest\<close> scans \<open>rest\<close> with the current
  piece reversed in \<open>piece\<close>; \<open>inws\<close> says that the last character was white.
\<close>

definition is_space :: "char \<Rightarrow> bool" where
  "is_space c = (of_char c \<in> {9, 10, 12, 13, 32 :: nat})"

fun split_go :: "bool \<Rightarrow> string \<Rightarrow> string \<Rightarrow> string list" where
  "split_go inws piece [] = [rev piece]"
| "split_go inws piece (c # cs) =
     (if is_space c
      then (if inws then split_go True [] cs else rev piece # split_go True [] cs)
      else split_go False (c # piece) cs)"

definition split_ws :: "string \<Rightarrow> string list" where
  "split_ws line = split_go False [] line"

text \<open>
  \<^verbatim>\<open>parseCPUline\<close> reads \<^verbatim>\<open>f[1]\<close> to \<^verbatim>\<open>f[9]\<close>: a line of fewer than ten
  fields panics at the first missing index. The counters set before the panic
  die with the process, so the model returns only the panic. Every \<^verbatim>\<open>Set\<close> of
  the source reads the clock itself; the model gives the ten of one call the
  one reading \<open>now\<close>.
\<close>

definition parseCPUline :: "PerCPU \<Rightarrow> string list \<Rightarrow> nat \<Rightarrow> panic + PerCPU" where
  "parseCPUline s f now =
     (if length f < 10 then Inl IndexOutOfRange
      else
        (let s1 = s\<lparr>User := Counter_Set (ParseUint (f ! 1)) now (User s)\<rparr>;
             s2 = s1\<lparr>UserLowPrio := Counter_Set (ParseUint (f ! 2)) now (UserLowPrio s1)\<rparr>;
             s3 = s2\<lparr>System := Counter_Set (ParseUint (f ! 3)) now (System s2)\<rparr>;
             s4 = s3\<lparr>Idle := Counter_Set (ParseUint (f ! 4)) now (Idle s3)\<rparr>;
             s5 = s4\<lparr>Iowait := Counter_Set (ParseUint (f ! 5)) now (Iowait s4)\<rparr>;
             s6 = s5\<lparr>Irq := Counter_Set (ParseUint (f ! 6)) now (Irq s5)\<rparr>;
             s7 = s6\<lparr>Softirq := Counter_Set (ParseUint (f ! 7)) now (Softirq s6)\<rparr>;
             s8 = s7\<lparr>Steal := Counter_Set (ParseUint (f ! 8)) now (Steal s7)\<rparr>;
             s9 = s8\<lparr>Guest := Counter_Set (ParseUint (f ! 9)) now (Guest s8)\<rparr>
         in Inr (s9\<lparr>Total :=
               Counter_Set (Counter_Get (User s9) + Counter_Get (UserLowPrio s9) +
                            Counter_Get (System s9) + Counter_Get (Idle s9))
                 now (Total s9)\<rparr>)))"

definition populateComputedStats :: "PerCPU \<Rightarrow> PerCPU" where
  "populateComputedStats s =
     (let s1 = s\<lparr>UserspacePct := PerCPU_UserSpace s\<rparr>;
          s2 = s1\<lparr>KernelPct := PerCPU_Kernel s1\<rparr>
      in s2\<lparr>UsagePct := PerCPU_Usage s2\<rparr>)"

subsection \<open>cpustat on Linux: CPUStat\<close>

text \<open>
  \<^verbatim>\<open>New\<close> initialises \<^verbatim>\<open>All\<close> and the map only: \<^verbatim>\<open>ProcsRunning\<close> and
  \<^verbatim>\<open>ProcsBlocked\<close> stay nil pointers.
\<close>

record CPUStat =
  All :: PerCPU
  ProcsRunning :: "Counter option"
  ProcsBlocked :: "Counter option"
  cpus :: "string \<rightharpoonup> PerCPU"

definition CPUStat_New :: CPUStat where
  "CPUStat_New =
     \<lparr>All = NewPerCPU, ProcsRunning = None, ProcsBlocked = None, cpus = Map.empty\<rparr>"

text \<open>
  One line of \<^verbatim>\<open>/proc/stat\<close>. The pattern \<^verbatim>\<open>^cpu\d*\<close> matches every first
  field that starts with \<^verbatim>\<open>cpu\<close>. The split never returns an empty slice, so
  the empty case below is never taken.
\<close>

definition CPUStat_Collect_line :: "CPUStat \<Rightarrow> string \<Rightarrow> nat \<Rightarrow> panic + CPUStat" where
  "CPUStat_Collect_line s line now =
     (case split_ws line of
        [] \<Rightarrow> Inr s
      | f0 # fs \<Rightarrow>
         if take 3 f0 = ''cpu'' then
           (if f0 = ''cpu'' then
              (case parseCPUline (All s) (f0 # fs) now of
                 Inl e \<Rightarrow> Inl e
               | Inr a \<Rightarrow> Inr (s\<lparr>All := populateComputedStats a\<rparr>))
            else
              (let perCPU = (case cpus s f0 of None \<Rightarrow> NewPerCPU | Some c \<Rightarrow> c)
               in case parseCPUline perCPU (f0 # fs) now of
                    Inl e \<Rightarrow> Inl e
                  | Inr c \<Rightarrow> Inr (s\<lparr>cpus := (cpus s)(f0 \<mapsto> populateComputedStats c)\<rparr>)))
         else Inr s)"

fun CPUStat_Collect_lines :: "CPUStat \<Rightarrow> string list \<Rightarrow> nat \<Rightarrow> panic + CPUStat" where
  "CPUStat_Collect_lines s [] now = Inr s"
| "CPUStat_Collect_lines s (line # rest) now =
     (case CPUStat_Collect_line s line now of
        Inl e \<Rightarrow> Inl e
      | Inr s' \<Rightarrow> CPUStat_Collect_lines s' rest now)"

text \<open>
  \<^verbatim>\<open>Collect\<close>: \<open>proc_stat\<close> is the lines of \<^verbatim>\<open>/proc/stat\<close> as the scanner
  yields them, or \<open>None\<close> when the file cannot be opened; \<open>now\<close> is the clock.
\<close>

definition CPUStat_Collect :: "CPUStat \<Rightarrow> string list option \<Rightarrow> nat \<Rightarrow> panic + CPUStat" where
  "CPUStat_Collect s proc_stat now =
     (case proc_stat of
        None \<Rightarrow> Inr s
      | Some lines \<Rightarrow> CPUStat_Collect_lines s lines now)"

subsection \<open>cpustat on Darwin\<close>

text \<open>
  The Darwin \<^verbatim>\<open>PerCPU\<close> has five counters and no gauges. Its \<^verbatim>\<open>Usage\<close> leaves
  the comparison of \<^verbatim>\<open>n\<close> with NaN out.
\<close>

record PerCPU_darwin =
  User :: Counter
  UserLowPrio :: Counter
  System :: Counter
  Idle :: Counter
  Total :: Counter

definition PerCPUNew :: PerCPU_darwin where
  "PerCPUNew =
     \<lparr>User = NewCounter, UserLowPrio = NewCounter, System = NewCounter,
      Idle = NewCounter, Total = NewCounter\<rparr>"

definition PerCPU_darwin_Usage :: "PerCPU_darwin \<Rightarrow> float64" where
  "PerCPU_darwin_Usage o' =
     (let u = ComputeRate (PerCPU_darwin.User o');
          n = ComputeRate (PerCPU_darwin.UserLowPrio o');
          s = ComputeRate (PerCPU_darwin.System o');
          t = ComputeRate (PerCPU_darwin.Total o')
      in if f_ne u NaN \<and> f_ne s NaN \<and> f_ne t NaN \<and> f_gt t (Fin 0)
         then f_mul (f_div (f_add (f_add u s) n) t) (Fin 100)
         else NaN)"

definition PerCPU_darwin_UserSpace :: "PerCPU_darwin \<Rightarrow> float64" where
  "PerCPU_darwin_UserSpace o' =
     (let u = ComputeRate (PerCPU_darwin.User o');
          n = ComputeRate (PerCPU_darwin.UserLowPrio o');
          t = ComputeRate (PerCPU_darwin.Total o')
      in if f_ne u NaN \<and> f_ne t NaN \<and> f_ne n NaN \<and> f_gt t (Fin 0)
         then f_mul (f_div (f_add u n) t) (Fin 100)
         else NaN)"

definition PerCPU_darwin_Kernel :: "PerCPU_darwin \<Rightarrow> float64" where
  "PerCPU_darwin_Kernel o' =
     (let s = ComputeRate (PerCPU_darwin.System o');
          t = ComputeRate (PerCPU_darwin.Total o')
      in if f_ne s NaN \<and> f_ne t NaN \<and> f_gt t (Fin 0)
         then f_mul (f_div s t) (Fin 100)
         else NaN)"

text \<open>
  \<^verbatim>\<open>host_cpu_load_info_data_t\<close>: the four tick counts of \<^verbatim>\<open>cpu_ticks\<close>, each a
  32-bit \<^verbatim>\<open>natural_t\<close>, by the name of its index.
\<close>

record host_cpu_load_info =
  CPU_STATE_USER :: uint32
  CPU_STATE_SYSTEM :: uint32
  CPU_STATE_IDLE :: uint32
  CPU_STATE_NICE :: uint32

definition uint64_of_uint32 :: "uint32 \<Rightarrow> uint64" where
  "uint64_of_uint32 x = ucast x"

text \<open>
  The Darwin \<^verbatim>\<open>CPUStat\<close> holds only \<^verbatim>\<open>All\<close>; the model of \<^verbatim>\<open>Collect\<close> works on
  it. \<open>host_statistics\<close> is the kernel's answer, \<open>None\<close> when the call does not
  return \<^verbatim>\<open>KERN_SUCCESS\<close>.
\<close>

definition CPUStat_darwin_Collect ::
    "PerCPU_darwin \<Rightarrow> host_cpu_load_info option \<Rightarrow> nat \<Rightarrow> PerCPU_darwin" where
  "CPUStat_darwin_Collect all' host_statistics now =
     (case host_statistics of
        None \<Rightarrow> all'
      | Some cpuinfo \<Rightarrow>
         (let a1 = all'\<lparr>PerCPU_darwin.User :=
                     Counter_Set (uint64_of_uint32 (CPU_STATE_USER cpuinfo)) now
                       (PerCPU_darwin.User all')\<rparr>;
              a2 = a1\<lparr>PerCPU_darwin.UserLowPrio :=
                     Counter_Set (uint64_of_uint32 (CPU_STATE_NICE cpuinfo)) now
                       (PerCPU_darwin.UserLowPrio a1)\<rparr>;
              a3 = a2\<lparr>PerCPU_darwin.System :=
                     Counter_Set (uint64_of_uint32 (CPU_STATE_SYSTEM cpuinfo)) now
                       (PerCPU_darwin.System a2)\<rparr>;
              a4 = a3\<lparr>PerCPU_darwin.Idle :=
                     Counter_Set (uint64_of_uint32 (CPU_STATE_IDLE cpuinfo)) now
                       (PerCPU_darwin.Idle a3)\<rparr>
          in a4\<lparr>PerCPU_darwin.Total :=
                 Counter_Set (uint64_of_uint32 (CPU_STATE_USER cpuinfo) +
                              uint64_of_uint32 (CPU_STATE_SYSTEM cpuinfo) +
                              uint64_of_uint32 (CPU_STATE_NICE cpuinfo) +
                              uint64_of_uint32 (CPU_STATE_IDLE cpuinfo))
                   now (PerCPU_darwin.Total a4)\<rparr>))"

subsection \<open>fsstat\<close>

text \<open>\<^verbatim>\<open>syscall.Statfs_t\<close>, the fields the collector reads (\<^verbatim>\<open>Bsize\<close> is signed).\<close>

record Statfs_t =
  Bsize :: "64 word"
  Blocks :: uint64
  Bfree :: uint64
  Bavail :: uint64
  Files :: uint64
  Ffree :: uint64

record perFSStatMetrics =
  Bsize :: Gauge
  Blocks :: Gauge
  Bfree :: Gauge
  Bavail :: Gauge
  Files :: Gauge
  Ffree :: Gauge

record PerFSStat =
  Metrics :: perFSStatMetrics
  mp :: string

definition NewPerFSStat :: "string \<Rightarrow> PerFSStat" where
  "NewPerFSStat mp' =
     \<lparr>Metrics = \<lparr>Bsize = NewGauge, Blocks = NewGauge, Bfree = NewGauge,
                  Bavail = NewGauge, Files = NewGauge, Ffree = NewGauge\<rparr>,
      mp = mp'\<rparr>"

text \<open>
  \<^verbatim>\<open>PerFSStat.Collect\<close>: \<open>statfs\<close> answers \<^verbatim>\<open>syscall.Statfs\<close> for a mount point,
  \<open>None\<close> on an error.
\<close>

definition PerFSStat_Collect :: "PerFSStat \<Rightarrow> (string \<Rightarrow> Statfs_t option) \<Rightarrow> PerFSStat" where
  "PerFSStat_Collect s statfs =
     (case statfs (mp s) of
        None \<Rightarrow> s
      | Some buf \<Rightarrow>
         s\<lparr>Metrics :=
             \<lparr>Bsize = Fin (real_of_int (sint (Statfs_t.Bsize buf))),
              Blocks = float64_of_uint64 (Statfs_t.Blocks buf),
              Bfree = float64_of_uint64 (Statfs_t.Bfree buf),
              Bavail = float64_of_uint64 (Statfs_t.Bavail buf),
              Files = float64_of_uint64 (Statfs_t.Files buf),
              Ffree = float64_of_uint64 (Statfs_t.Ffree buf)\<rparr>\<rparr>)"

text \<open>
  \<^verbatim>\<open>Usage\<close> and \<^verbatim>\<open>FileUsage\<close>, the same in both copies of the package
  (\<^verbatim>\<open>src/cpustat/cpustat_linux.go\<close> and \<^verbatim>\<open>src/unnamed/part_001\<close>).
\<close>

definition PerFSStat_Usage :: "PerFSStat \<Rightarrow> float64" where
  "PerFSStat_Usage s =
     (let o' = Metrics s; total = Blocks o'; free = Bfree o'
      in f_mul (f_div (f_sub total free) total) (Fin 100))"

definition PerFSStat_FileUsage :: "PerFSStat \<Rightarrow> float64" where
  "PerFSStat_FileUsage s =
     (let o' = Metrics s; total = Files o'; free = Ffree o'
      in f_mul (f_div (f_sub total free) total) (Fin 100))"

text \<open>\<^verbatim>\<open>strings.Split(line, " ")\<close>: the pieces between single spaces.\<close>

fun split_on_space :: "string \<Rightarrow> string \<Rightarrow> string list" where
  "split_on_space piece [] = [rev piece]"
| "split_on_space piece (c # cs) =
     (if c = CHR '' '' then rev piece # split_on_space [] cs
      else split_on_space (c # piece) cs)"

definition strings_Split :: "string \<Rightarrow> string list" where
  "strings_Split line = split_on_space [] line"

record FSStat =
  FS :: "string \<rightharpoonup> PerFSStat"

definition FSStat_New :: FSStat where
  "FSStat_New = \<lparr>FS = Map.empty\<rparr>"

text \<open>
  One line of \<^verbatim>\<open>/etc/mtab\<close> in \<^verbatim>\<open>FSStat.Collect\<close> of
  \<^verbatim>\<open>src/cpustat/cpustat_linux.go\<close>. \<^verbatim>\<open>f[3]\<close> is read when the device type is not
  skipped: a line of fewer than four fields panics there.
\<close>

definition FSStat_Collect_line ::
    "FSStat \<Rightarrow> string \<Rightarrow> (string \<Rightarrow> Statfs_t option) \<Rightarrow> panic + FSStat" where
  "FSStat_Collect_line s line statfs =
     (let f = strings_Split line in
      if f ! 0 = ''proc'' \<or> f ! 0 = ''sysfs'' \<or> f ! 0 = ''devpts'' \<or>
         f ! 0 = ''none'' \<or> f ! 0 = ''sunrpc'' then Inr s
      else if length f < 4 then Inl IndexOutOfRange
      else if f ! 3 = ''swap'' \<or> f ! 3 = ''bind'' \<or> f ! 3 = ''ignore'' \<or> f ! 3 = ''none''
      then Inr s
      else
        (let o' = (case FS s (f ! 1) of None \<Rightarrow> NewPerFSStat (f ! 1) | Some x \<Rightarrow> x)
         in Inr (s\<lparr>FS := (FS s)(f ! 1 \<mapsto> PerFSStat_Collect o' statfs)\<rparr>)))"

fun FSStat_Collect_lines ::
    "FSStat \<Rightarrow> string list \<Rightarrow> (string \<Rightarrow> Statfs_t option) \<Rightarrow> panic + FSStat" where
  "FSStat_Collect_lines s [] statfs = Inr s"
| "FSStat_Collect_lines s (line # rest) statfs =
     (case FSStat_Collect_line s line statfs of
        Inl e \<Rightarrow> Inl e
      | Inr s' \<Rightarrow> FSStat_Collect_lines s' rest statfs)"

definition FSStat_Collect ::
    "FSStat \<Rightarrow> string list option \<Rightarrow> (string \<Rightarrow> Statfs_t option) \<Rightarrow> panic + FSStat" where
  "FSStat_Collect s mtab statfs =
     (case mtab of
        None \<Rightarrow> Inr s
      | Some lines \<Rightarrow> FSStat_Collect_lines s lines statfs)"

subsection \<open>misc.ReadUintFromFile\<close>

text \<open>
  The files the cgroup collector reads: a path gives the lines the scanner
  yields, or \<open>None\<close> when the file cannot be opened.
  \<^verbatim>\<open>ReadUintFromFile\<close> parses the first line and gives 0 for a file that is
  missing or empty.
\<close>

type_synonym files = "string \<Rightarrow> string list option"

definition ReadUintFromFile :: "files \<Rightarrow> string \<Rightarrow> uint64" where
  "ReadUintFromFile fs path' =
     (case fs path' of
        None \<Rightarrow> 0
      | Some [] \<Rightarrow> 0
      | Some (line # rest) \<Rightarrow> ParseUint line)"

subsection \<open>The cgroup collector\<close>

text \<open>
  \<^verbatim>\<open>PerCgroupStat\<close> of \<^verbatim>\<open>src/pidstat/pidstat_darwin.go\<close>, the copy with the
  per-task times \<^verbatim>\<open>Utime\<close> and \<^verbatim>\<open>Stime\<close>.
\<close>

record PerCgroupStat =
  Nr_periods :: Counter
  Nr_throttled :: Counter
  Throttled_time :: Counter
  Cfs_period_us :: Gauge
  Cfs_quota_us :: Gauge
  Utime :: Counter
  Stime :: Counter
  UsagePct :: Gauge
  UserspacePct :: Gauge
  KernelPct :: Gauge
  path :: string

definition NewPerCgroupStat :: "string \<Rightarrow> string \<Rightarrow> PerCgroupStat" where
  "NewPerCgroupStat path' mp' =
     \<lparr>Nr_periods = NewCounter, Nr_throttled = NewCounter, Throttled_time = NewCounter,
      Cfs_period_us = NewGauge, Cfs_quota_us = NewGauge,
      Utime = NewCounter, Stime = NewCounter,
      UsagePct = NewGauge, UserspacePct = NewGauge, KernelPct = NewGauge,
      path = path'\<rparr>"

definition PerCgroupStat_Throttle :: "PerCgroupStat \<Rightarrow> float64" where
  "PerCgroupStat_Throttle s =
     (let throttled_sec = ComputeRate (Throttled_time s)
      in f_mul (f_div throttled_sec (Fin (1 * 1000 * 1000 * 1000))) (Fin 100))"

definition PerCgroupStat_Quota :: "PerCgroupStat \<Rightarrow> float64" where
  "PerCgroupStat_Quota s = f_div (Cfs_quota_us s) (Cfs_period_us s)"

text \<open>
  \<open>ticks\<close> is \<^verbatim>\<open>LINUX_TICKS_IN_SEC\<close>, the value of \<^verbatim>\<open>sysconf(_SC_CLK_TCK)\<close>.
\<close>

definition PerCgroupStat_Usage :: "int \<Rightarrow> PerCgroupStat \<Rightarrow> float64" where
  "PerCgroupStat_Usage ticks s =
     (let rate_per_sec = f_add (ComputeRate (Utime s)) (ComputeRate (Stime s))
      in f_div (f_mul rate_per_sec (Fin 100)) (Fin (real_of_int ticks)))"

definition PerCgroupStat_Userspace :: "int \<Rightarrow> PerCgroupStat \<Rightarrow> float64" where
  "PerCgroupStat_Userspace ticks s =
     (let rate_per_sec = ComputeRate (Utime s)
      in f_div (f_mul rate_per_sec (Fin 100)) (Fin (real_of_int ticks)))"

definition PerCgroupStat_Kernel :: "int \<Rightarrow> PerCgroupStat \<Rightarrow> float64" where
  "PerCgroupStat_Kernel ticks s =
     (let rate_per_sec = ComputeRate (Utime s)
      in f_div (f_mul rate_per_sec (Fin 100)) (Fin (real_of_int ticks)))"

text \<open>
  \<^verbatim>\<open>getCPUTimes\<close>: fields 13 and 14 of every line of \<^verbatim>\<open>/proc/<pid>/stat\<close>, the
  last line winning; a line of fewer than fifteen fields panics.
\<close>

fun getCPUTimes_lines ::
    "uint64 \<times> uint64 \<Rightarrow> string list \<Rightarrow> panic + uint64 \<times> uint64" where
  "getCPUTimes_lines us [] = Inr us"
| "getCPUTimes_lines us (line # rest) =
     (let f = strings_Split line in
      if length f < 15 then Inl IndexOutOfRange
      else getCPUTimes_lines (ParseUint (f ! 13), ParseUint (f ! 14)) rest)"

definition getCPUTimes :: "files \<Rightarrow> string \<Rightarrow> panic + uint64 \<times> uint64" where
  "getCPUTimes fs pid' =
     (case fs (''/proc/'' @ pid' @ ''/stat'') of
        None \<Rightarrow> Inr (0, 0)
      | Some lines \<Rightarrow> getCPUTimes_lines (0, 0) lines)"

fun sum_CPUTimes ::
    "files \<Rightarrow> uint64 \<times> uint64 \<Rightarrow> string list \<Rightarrow> panic + uint64 \<times> uint64" where
  "sum_CPUTimes fs (utime, stime) [] = Inr (utime, stime)"
| "sum_CPUTimes fs (utime, stime) (pid' # rest) =
     (case getCPUTimes fs pid' of
        Inl e \<Rightarrow> Inl e
      | Inr (u, s) \<Rightarrow> sum_CPUTimes fs (utime + u, stime + s) rest)"

definition getCgroupCPUTimes ::
    "PerCgroupStat \<Rightarrow> files \<Rightarrow> nat \<Rightarrow> panic + PerCgroupStat" where
  "getCgroupCPUTimes s fs now =
     (case fs (path s @ ''/'' @ ''cgroup.procs'') of
        None \<Rightarrow> Inr s
      | Some pids \<Rightarrow>
         (case sum_CPUTimes fs (0, 0) pids of
            Inl e \<Rightarrow> Inl e
          | Inr (utime, stime) \<Rightarrow>
             Inr (s\<lparr>Utime := Counter_Set utime now (Utime s),
                    Stime := Counter_Set stime now (Stime s)\<rparr>)))"

text \<open>
  \<^verbatim>\<open>regexp.MustCompile("\\s+").Split(line, 2)\<close>: at most two pieces, the text
  before the first run of white space and everything after that run.
\<close>

definition split_ws2 :: "string \<Rightarrow> string list" where
  "split_ws2 line =
     (let rest = dropWhile (\<lambda>c. \<not> is_space c) line in
      if rest = [] then [line]
      else [takeWhile (\<lambda>c. \<not> is_space c) line, dropWhile is_space rest])"

text \<open>
  One line of \<^verbatim>\<open>cpu.stat\<close>. The three tests are separate \<^verbatim>\<open>if\<close>s on \<^verbatim>\<open>f[0]\<close>,
  of which at most one holds; \<^verbatim>\<open>f[1]\<close> is read only under one of them and
  panics on a line with the key alone.
\<close>

definition cpu_stat_line :: "PerCgroupStat \<Rightarrow> string \<Rightarrow> nat \<Rightarrow> panic + PerCgroupStat" where
  "cpu_stat_line s line now =
     (let f = split_ws2 line in
      if f ! 0 = ''nr_periods'' then
        (if length f < 2 then Inl IndexOutOfRange
         else Inr (s\<lparr>Nr_periods := Counter_Set (ParseUint (f ! 1)) now (Nr_periods s)\<rparr>))
      else if f ! 0 = ''nr_throttled'' then
        (if length f < 2 then Inl IndexOutOfRange
         else Inr (s\<lparr>Nr_throttled := Counter_Set (ParseUint (f ! 1)) now (Nr_throttled s)\<rparr>))
      else if f ! 0 = ''throttled_time'' then
        (if length f < 2 then Inl IndexOutOfRange
         else Inr (s\<lparr>Throttled_time :=
                       Counter_Set (ParseUint (f ! 1)) now (Throttled_time s)\<rparr>))
      else Inr s)"

fun cpu_stat_lines :: "PerCgroupStat \<Rightarrow> string list \<Rightarrow> nat \<Rightarrow> panic + PerCgroupStat" where
  "cpu_stat_lines s [] now = Inr s"
| "cpu_stat_lines s (line # rest) now =
     (case cpu_stat_line s line now of
        Inl e \<Rightarrow> Inl e
      | Inr s' \<Rightarrow> cpu_stat_lines s' rest now)"

text \<open>
  \<^verbatim>\<open>PerCgroupStat.Collect\<close>. When \<^verbatim>\<open>cpu.stat\<close> cannot be opened it returns at
  once and nothing is updated.
\<close>

definition PerCgroupStat_Collect ::
    "int \<Rightarrow> PerCgroupStat \<Rightarrow> files \<Rightarrow> nat \<Rightarrow> panic + PerCgroupStat" where
  "PerCgroupStat_Collect ticks s fs now =
     (case fs (path s @ ''/'' @ ''cpu.stat'') of
        None \<Rightarrow> Inr s
      | Some lines \<Rightarrow>
         (case cpu_stat_lines s lines now of
            Inl e \<Rightarrow> Inl e
          | Inr s1 \<Rightarrow>
             (let s2 = s1\<lparr>Cfs_period_us :=
                          float64_of_uint64
                            (ReadUintFromFile fs (path s1 @ ''/'' @ ''cpu.cfs_period_us''))\<rparr>;
                  s3 = s2\<lparr>Cfs_quota_us :=
                          float64_of_uint64
                            (ReadUintFromFile fs (path s2 @ ''/'' @ ''cpu.cfs_quota_us''))\<rparr>
              in case getCgroupCPUTimes s3 fs now of
                   Inl e \<Rightarrow> Inl e
                 | Inr s4 \<Rightarrow>
                    (let s5 = s4\<lparr>PerCgroupStat.UsagePct := PerCgroupStat_Usage ticks s4\<rparr>;
                         s6 = s5\<lparr>PerCgroupStat.UserspacePct :=
                                    PerCgroupStat_Userspace ticks s5\<rparr>
                     in Inr (s6\<lparr>PerCgroupStat.KernelPct :=
                                  PerCgroupStat_Kernel ticks s6\<rparr>)))))"

record CgroupStat =
  Cgroups :: "string \<rightharpoonup> PerCgroupStat"
  Mountpoint :: string

text \<open>
  \<^verbatim>\<open>CgroupStat.Collect\<close>. \<open>cgroups\<close> is the slice \<^verbatim>\<open>misc.FindCgroups\<close> returns
  (its error is always nil). The first loop deletes every tracked cgroup that
  is not in the slice; the second adds the missing ones and collects each.
\<close>

fun CgroupStat_Collect_each ::
    "int \<Rightarrow> (string \<rightharpoonup> PerCgroupStat) \<Rightarrow> string list \<Rightarrow> string \<Rightarrow> files \<Rightarrow> nat \<Rightarrow>
     panic + (string \<rightharpoonup> PerCgroupStat)" where
  "CgroupStat_Collect_each ticks m [] mountpoint fs now = Inr m"
| "CgroupStat_Collect_each ticks m (cgroup # rest) mountpoint fs now =
     (let e = (case m cgroup of None \<Rightarrow> NewPerCgroupStat cgroup mountpoint | Some x \<Rightarrow> x)
      in case PerCgroupStat_Collect ticks e fs now of
           Inl err \<Rightarrow> Inl err
         | Inr e' \<Rightarrow> CgroupStat_Collect_each ticks (m(cgroup \<mapsto> e')) rest mountpoint fs now)"

definition CgroupStat_Collect ::
    "int \<Rightarrow> CgroupStat \<Rightarrow> string list \<Rightarrow> string \<Rightarrow> files \<Rightarrow> nat \<Rightarrow> panic + CgroupStat" where
  "CgroupStat_Collect ticks c cgroups mountpoint fs now =
     (let kept = (\<lambda>cgroup. if cgroup \<in> set cgroups then Cgroups c cgroup else None)
      in case CgroupStat_Collect_each ticks kept cgroups mountpoint fs now of
           Inl err \<Rightarrow> Inl err
         | Inr m \<Rightarrow> Inr (c\<lparr>Cgroups := m\<rparr>))"

subsection \<open>pidstat on Darwin\<close>

text \<open>
  \<^verbatim>\<open>fmt.Sprintf("%v", pid)\<close> for the C integer \<^verbatim>\<open>pid\<close>: its decimal digits,
  after a minus sign when it is negative. \<open>decimal_digits n acc\<close> puts the
  digits of \<open>n\<close> in front of \<open>acc\<close>, the last digit first.
\<close>

definition digit_char :: "nat \<Rightarrow> char" where
  "digit_char d = ''0123456789'' ! d"

function decimal_digits :: "nat \<Rightarrow> string \<Rightarrow> string" where
  "decimal_digits n acc =
     (if 10 \<le> n then decimal_digits (n div 10) (digit_char (n mod 10) # acc)
      else digit_char n # acc)"
  by pat_completeness auto
termination
  by (relation "measure fst") auto

declare decimal_digits.simps [simp del]

definition Sprintf_v :: "int \<Rightarrow> string" where
  "Sprintf_v i =
     (if i < 0 then CHR ''-'' # decimal_digits (nat (- i)) []
      else decimal_digits (nat i) [])"

record PerProcessStatMetrics =
  VirtualSize :: Gauge
  ResidentSize :: Gauge
  ResidentSizeMax :: Gauge
  UserTime :: Counter
  SystemTime :: Counter

record PerProcessStat =
  pid :: string
  Uid :: int
  user :: string
  comm :: string
  Metrics :: PerProcessStatMetrics
  dead :: bool

text \<open>
  \<^verbatim>\<open>NewPerProcessStat\<close>: \<^verbatim>\<open>new\<close> zeroes the struct, so \<^verbatim>\<open>dead\<close> starts false.
\<close>

definition NewPerProcessStatMetrics :: PerProcessStatMetrics where
  "NewPerProcessStatMetrics =
     \<lparr>VirtualSize = NewGauge, ResidentSize = NewGauge, ResidentSizeMax = NewGauge,
      UserTime = NewCounter, SystemTime = NewCounter\<rparr>"

definition NewPerProcessStat :: "string \<Rightarrow> PerProcessStat" where
  "NewPerProcessStat p =
     \<lparr>pid = p, Uid = 0, user = [], comm = [],
      Metrics = NewPerProcessStatMetrics, dead = False\<rparr>"

definition NS :: real where
  "NS = 1 * 1000 * 1000 * 1000"

definition PerProcessStat_CPUUsage :: "PerProcessStat \<Rightarrow> float64" where
  "PerProcessStat_CPUUsage s =
     (let o' = PerProcessStat.Metrics s;
          rate_ns = f_add (ComputeRate (UserTime o')) (ComputeRate (SystemTime o'))
      in f_mul (f_div rate_ns (Fin NS)) (Fin 100))"

definition PerProcessStat_MemUsage :: "PerProcessStat \<Rightarrow> float64" where
  "PerProcessStat_MemUsage s = ResidentSize (PerProcessStat.Metrics s)"

text \<open>
  What the Mach kernel answers for one task of the processor set: each call
  is \<open>None\<close> when it does not return \<^verbatim>\<open>KERN_SUCCESS\<close>. \<open>p_comm\<close>, \<open>cr_uid\<close> and
  \<open>user_LookupId\<close> are what \<^verbatim>\<open>CollectAttributes\<close> reads (\<^verbatim>\<open>sysctl\<close> and the user
  database).
\<close>

record mach_task_basic_info =
  virtual_size :: uint64
  resident_size :: uint64
  resident_size_max :: uint64

record task_absolutetime_info =
  total_user :: uint64
  total_system :: uint64

record mach_task =
  pid_for_task :: "int option"
  MACH_TASK_BASIC_INFO :: "mach_task_basic_info option"
  TASK_ABSOLUTETIME_INFO :: "task_absolutetime_info option"
  p_comm :: string
  cr_uid :: int
  user_LookupId :: "string option"

record mach_timebase_info =
  numer :: uint32
  denom :: uint32

record mach_host =
  processor_set_default :: bool
  host_processor_set_priv :: bool
  processor_set_tasks :: "mach_task list option"
  timebase :: mach_timebase_info

text \<open>
  \<^verbatim>\<open>absolute_to_nano\<close>, in 64-bit unsigned arithmetic. The C code divides by
  \<open>denom\<close>, which \<^verbatim>\<open>mach_timebase_info\<close> has made non-zero.
\<close>

definition absolute_to_nano :: "mach_timebase_info \<Rightarrow> uint64 \<Rightarrow> uint64" where
  "absolute_to_nano tb abs' = (abs' * ucast (numer tb)) div ucast (denom tb)"

definition CollectAttributes :: "PerProcessStat \<Rightarrow> mach_task \<Rightarrow> PerProcessStat" where
  "CollectAttributes s task =
     s\<lparr>comm := p_comm task, Uid := cr_uid task,
       user := (case user_LookupId task of None \<Rightarrow> user s | Some u \<Rightarrow> u)\<rparr>"

text \<open>
  The body of the loop over the task list in \<^verbatim>\<open>ProcessStat.Collect\<close>. A task
  whose pid cannot be read, or whose basic info cannot be read, is skipped
  before the map is touched. When the absolute-time info cannot be read the
  gauges are already set and \<^verbatim>\<open>dead\<close> keeps the value it had.
\<close>

definition Collect_task ::
    "bool \<Rightarrow> mach_timebase_info \<Rightarrow> nat \<Rightarrow> (string \<rightharpoonup> PerProcessStat) \<Rightarrow> mach_task \<Rightarrow>
     (string \<rightharpoonup> PerProcessStat)" where
  "Collect_task collectAttributes tb now h task =
     (case pid_for_task task of
        None \<Rightarrow> h
      | Some pid' \<Rightarrow>
         if pid' < 0 then h
         else
           (case MACH_TASK_BASIC_INFO task of
              None \<Rightarrow> h
            | Some taskBasicInfo \<Rightarrow>
               (let spid = Sprintf_v pid';
                    ok = (h spid \<noteq> None);
                    pidstat = (case h spid of None \<Rightarrow> NewPerProcessStat spid | Some x \<Rightarrow> x);
                    pidstat1 = (if collectAttributes \<or> \<not> ok
                                then CollectAttributes pidstat task else pidstat);
                    pidstat2 = pidstat1\<lparr>PerProcessStat.Metrics :=
                      (PerProcessStat.Metrics pidstat1)
                        \<lparr>VirtualSize := float64_of_uint64 (virtual_size taskBasicInfo),
                         ResidentSize := float64_of_uint64 (resident_size taskBasicInfo),
                         ResidentSizeMax :=
                           float64_of_uint64 (resident_size_max taskBasicInfo)\<rparr>\<rparr>
                in case TASK_ABSOLUTETIME_INFO task of
                     None \<Rightarrow> h(spid \<mapsto> pidstat2)
                   | Some taskAbsoluteInfo \<Rightarrow>
                      h(spid \<mapsto> pidstat2\<lparr>PerProcessStat.Metrics :=
                          (PerProcessStat.Metrics pidstat2)
                            \<lparr>UserTime :=
                               Counter_Set (absolute_to_nano tb (total_user taskAbsoluteInfo))
                                 now (UserTime (PerProcessStat.Metrics pidstat2)),
                             SystemTime :=
                               Counter_Set (absolute_to_nano tb (total_system taskAbsoluteInfo))
                                 now (SystemTime (PerProcessStat.Metrics pidstat2))\<rparr>,
                          dead := False\<rparr>))))"

record ProcessStat =
  Processes :: "string \<rightharpoonup> PerProcessStat"

definition mark_dead :: "(string \<rightharpoonup> PerProcessStat) \<Rightarrow> (string \<rightharpoonup> PerProcessStat)" where
  "mark_dead h = (\<lambda>k. case h k of None \<Rightarrow> None | Some v \<Rightarrow> Some (v\<lparr>dead := True\<rparr>))"

definition remove_dead :: "(string \<rightharpoonup> PerProcessStat) \<Rightarrow> (string \<rightharpoonup> PerProcessStat)" where
  "remove_dead h = (\<lambda>k. case h k of None \<Rightarrow> None | Some v \<Rightarrow> if dead v then None else Some v)"

text \<open>
  \<^verbatim>\<open>ProcessStat.Collect\<close>: every entry is marked dead first; each of the three
  calls that lead to the task list returns at once on failure, before the
  loop and before the removal of the dead entries.
\<close>

definition ProcessStat_Collect ::
    "ProcessStat \<Rightarrow> bool \<Rightarrow> mach_host \<Rightarrow> nat \<Rightarrow> ProcessStat" where
  "ProcessStat_Collect c collectAttributes host now =
     (let h = mark_dead (Processes c) in
      if \<not> processor_set_default host then c\<lparr>Processes := h\<rparr>
      else if \<not> host_processor_set_priv host then c\<lparr>Processes := h\<rparr>
      else
        (case processor_set_tasks host of
           None \<Rightarrow> c\<lparr>Processes := h\<rparr>
         | Some goTaskList \<Rightarrow>
            c\<lparr>Processes :=
                remove_dead
                  (foldl (Collect_task collectAttributes (timebase host) now) h goTaskList)\<rparr>))"

text \<open>
  The ticker loop of \<^verbatim>\<open>NewProcessStat\<close>. \<open>ticker_collects len n\<close> says which of
  the two calls \<^verbatim>\<open>Collect(true)\<close> and \<^verbatim>\<open>Collect(false)\<close> tick \<open>n\<close> makes when the
  map holds \<open>len\<close> processes; \<^verbatim>\<open>n%p\<close> is evaluated only when \<open>p\<close> is at least 1.
\<close>

definition ticker_collects :: "nat \<Rightarrow> nat \<Rightarrow> bool \<times> bool" where
  "ticker_collects len n = (let p = len div 1024 in (n = 0, p < 1 \<or> n mod p = 0))"

definition ProcessStat_tick ::
    "mach_host \<Rightarrow> nat \<Rightarrow> ProcessStat \<times> nat \<Rightarrow> ProcessStat \<times> nat" where
  "ProcessStat_tick host now cn =
     (let c = fst cn; n = snd cn;
          collects = ticker_collects (card (dom (Processes c))) n;
          c1 = (if fst collects then ProcessStat_Collect c True host now else c);
          c2 = (if snd collects then ProcessStat_Collect c1 False host now else c1)
      in (c2, n + 1))"

subsection \<open>Properties stated over the collectors\<close>

text \<open>
  A \<^verbatim>\<open>PerCPU\<close> whose \<^verbatim>\<open>Total\<close> counter holds the 64-bit sum of its \<^verbatim>\<open>User\<close>,
  \<^verbatim>\<open>UserLowPrio\<close>, \<^verbatim>\<open>System\<close> and \<^verbatim>\<open>Idle\<close> counters, and a \<^verbatim>\<open>CPUStat\<close> all of
  whose entities are so.
\<close>

definition Total_is_sum :: "PerCPU \<Rightarrow> bool" where
  "Total_is_sum p =
     (Counter_Get (PerCPU.Total p) =
        Counter_Get (PerCPU.User p) + Counter_Get (PerCPU.UserLowPrio p) +
        Counter_Get (PerCPU.System p) + Counter_Get (PerCPU.Idle p))"


text \<open>
  Two samples of one cgroup, one second apart: the cgroup \<^verbatim>\<open>/cg/a\<close> holds the
  process 42, whose \<^verbatim>\<open>/proc/42/stat\<close> shows 100 user and 10 system ticks at
  the first sample, 200 and 60 at the second.
\<close>

definition cgroup_a_files :: "string \<Rightarrow> files" where
  "cgroup_a_files stat_line =
     [''/cg/a/cpu.stat'' \<mapsto> [],
      ''/cg/a/cgroup.procs'' \<mapsto> [''42''],
      ''/proc/42/stat'' \<mapsto> [stat_line]]"

definition cgroup_a_sampled_twice :: "panic + PerCgroupStat" where
  "cgroup_a_sampled_twice =
     (case PerCgroupStat_Collect 100 (NewPerCgroupStat ''/cg/a'' ''/cg'')
             (cgroup_a_files ''42 (sh) S 1 42 42 0 -1 0 0 0 0 0 100 10 0 0 20 0 1 0'') 0 of
        Inl e \<Rightarrow> Inl e
      | Inr s \<Rightarrow>
         PerCgroupStat_Collect 100 s
           (cgroup_a_files ''42 (sh) S 1 42 42 0 -1 0 0 0 0 0 200 60 0 0 20 0 1 0'')
           1000000000)"

text \<open>
  A \<^verbatim>\<open>PerCPU\<close> whose counters were sampled twice, one second apart, with
  the same values: every rate is 0.
\<close>

definition PerCPU_zero_total_rate :: PerCPU where
  "PerCPU_zero_total_rate =
     NewPerCPU\<lparr>PerCPU.User := Counter_Set 7 1000000000 (Counter_Set 7 0 NewCounter),
               PerCPU.UserLowPrio := Counter_Set 0 1000000000 (Counter_Set 0 0 NewCounter),
               PerCPU.System := Counter_Set 3 1000000000 (Counter_Set 3 0 NewCounter),
               PerCPU.Total := Counter_Set 100 1000000000 (Counter_Set 100 0 NewCounter)\<rparr>"

text \<open>
  A \<^verbatim>\<open>PerCPU\<close> whose \<^verbatim>\<open>User\<close> counter has no rate, its two samples bearing
  the same clock reading, while \<^verbatim>\<open>System\<close> went from 0 to 5 and \<^verbatim>\<open>Total\<close>
  from 7 to 107 within one second.
\<close>

definition PerCPU_User_rate_NaN :: PerCPU where
  "PerCPU_User_rate_NaN =
     NewPerCPU\<lparr>PerCPU.User := Counter_Set 7 0 (Counter_Set 7 0 NewCounter),
               PerCPU.UserLowPrio := Counter_Set 0 1000000000 (Counter_Set 0 0 NewCounter),
               PerCPU.System := Counter_Set 5 1000000000 (Counter_Set 0 0 NewCounter),
               PerCPU.Total := Counter_Set 107 1000000000 (Counter_Set 7 0 NewCounter)\<rparr>"

text \<open>
  The Darwin \<^verbatim>\<open>PerCPU\<close> after two passes, one second apart, in which the
  kernel reports the same tick counts: every rate is 0.
\<close>

definition PerCPU_darwin_zero_total_rate :: PerCPU_darwin where
  "PerCPU_darwin_zero_total_rate =
     CPUStat_darwin_Collect
       (CPUStat_darwin_Collect PerCPUNew
          (Some \<lparr>CPU_STATE_USER = 7, CPU_STATE_SYSTEM = 3, CPU_STATE_IDLE = 90,
                  CPU_STATE_NICE = 0\<rparr>) 0)
       (Some \<lparr>CPU_STATE_USER = 7, CPU_STATE_SYSTEM = 3, CPU_STATE_IDLE = 90,
               CPU_STATE_NICE = 0\<rparr>) 1000000000"

text \<open>
  A new CPU collector that reads one line of \<^verbatim>\<open>/proc/stat\<close> and, one second
  later, a second line.
\<close>

definition feed_two_lines :: "string \<Rightarrow> string \<Rightarrow> panic + CPUStat" where
  "feed_two_lines first second =
     (case CPUStat_Collect CPUStat_New (Some [first]) 0 of
        Inl e \<Rightarrow> Inl e
      | Inr s \<Rightarrow> CPUStat_Collect s (Some [second]) 1000000000)"

text \<open>
  The files of a cgroup whose quota is unset: the kernel shows \<^verbatim>\<open>-1\<close> in
  \<^verbatim>\<open>cpu.cfs_quota_us\<close>. There is no \<^verbatim>\<open>cgroup.procs\<close>.
\<close>

definition quota_unset_files :: files where
  "quota_unset_files =
     [''/cg/a/cpu.stat'' \<mapsto> [''nr_periods 0'', ''nr_throttled 0'', ''throttled_time 0''],
      ''/cg/a/cpu.cfs_period_us'' \<mapsto> [''100000''],
      ''/cg/a/cpu.cfs_quota_us'' \<mapsto> [''-1'']]"

text \<open>
  \<^verbatim>\<open>NewProcessStat\<close> starts with an empty map.
\<close>

definition ProcessStat_New :: ProcessStat where
  "ProcessStat_New = \<lparr>Processes = Map.empty\<rparr>"

text \<open>
  The key under which the loop of \<^verbatim>\<open>ProcessStat.Collect\<close> looks a task up: the
  text of its pid, for a task that passes the two tests before the lookup (the
  pid is read and not negative, the basic info is read).
\<close>

definition task_spid :: "mach_task \<Rightarrow> string option" where
  "task_spid task =
     (case pid_for_task task of
        None \<Rightarrow> None
      | Some pid' \<Rightarrow>
         if pid' < 0 then None
         else (case MACH_TASK_BASIC_INFO task of
                 None \<Rightarrow> None
               | Some taskBasicInfo \<Rightarrow> Some (Sprintf_v pid')))"

text \<open>An entry of the map whose \<^verbatim>\<open>dead\<close> flag is set.\<close>

definition marked_dead :: "(string \<rightharpoonup> PerProcessStat) \<Rightarrow> string \<Rightarrow> bool" where
  "marked_dead h k = (case h k of None \<Rightarrow> False | Some v \<Rightarrow> dead v)"

text \<open>
  The per-core names in the lines of \<^verbatim>\<open>/proc/stat\<close>: every first field that
  starts with \<^verbatim>\<open>cpu\<close> and is not \<^verbatim>\<open>cpu\<close> itself.
\<close>

definition cpu_names :: "string list \<Rightarrow> string set" where
  "cpu_names lines =
     {f0. \<exists>line\<in>set lines. f0 = hd (split_ws line) \<and> take 3 f0 = ''cpu'' \<and> f0 \<noteq> ''cpu''}"

text \<open>
  A host whose three calls for the task list succeed, and the task of pid 7,
  whose absolute-time info can be read or not. \<open>pid_7_tracked\<close> is the process
  collector after a first pass that read the task in full.
\<close>

definition task_7 :: "bool \<Rightarrow> mach_task" where
  "task_7 absolutetime_ok =
     \<lparr>pid_for_task = Some 7,
      MACH_TASK_BASIC_INFO =
        Some \<lparr>virtual_size = 4096, resident_size = 1024, resident_size_max = 2048\<rparr>,
      TASK_ABSOLUTETIME_INFO =
        (if absolutetime_ok then Some \<lparr>total_user = 10, total_system = 5\<rparr> else None),
      p_comm = ''sh'', cr_uid = 0, user_LookupId = Some ''root''\<rparr>"

definition host_with_tasks :: "mach_task list \<Rightarrow> mach_host" where
  "host_with_tasks ts =
     \<lparr>processor_set_default = True, host_processor_set_priv = True,
      processor_set_tasks = Some ts, timebase = \<lparr>numer = 1, denom = 1\<rparr>\<rparr>"

definition pid_7_tracked :: ProcessStat where
  "pid_7_tracked = ProcessStat_Collect ProcessStat_New True (host_with_tasks [task_7 True]) 0"

text \<open>
  A Linux CPU collector that sees the cores \<^verbatim>\<open>cpu0\<close> and \<^verbatim>\<open>cpu1\<close> and, one
  second later, only \<^verbatim>\<open>cpu0\<close>; a filesystem collector that sees the mounts
  \<^verbatim>\<open>/\<close> and \<^verbatim>\<open>/mnt\<close> and then only \<^verbatim>\<open>/\<close>, with a \<^verbatim>\<open>statfs\<close> that
  succeeds; a cgroup collector that tracks \<^verbatim>\<open>/cg/old\<close>.
\<close>

definition cpu_core_removed :: "panic + CPUStat" where
  "cpu_core_removed =
     (case CPUStat_Collect CPUStat_New
             (Some [''cpu 2 0 2 96 0 0 0 0 0'', ''cpu0 1 0 1 48 0 0 0 0 0'',
                    ''cpu1 1 0 1 48 0 0 0 0 0'']) 0 of
        Inl e \<Rightarrow> Inl e
      | Inr s \<Rightarrow>
         CPUStat_Collect s
           (Some [''cpu 3 0 3 144 0 0 0 0 0'', ''cpu0 3 0 3 144 0 0 0 0 0'']) 1000000000)"

definition statfs_ok :: "string \<Rightarrow> Statfs_t option" where
  "statfs_ok mp' =
     Some \<lparr>Statfs_t.Bsize = 4096, Statfs_t.Blocks = 1000, Statfs_t.Bfree = 250,
           Statfs_t.Bavail = 200, Statfs_t.Files = 64, Statfs_t.Ffree = 32\<rparr>"

definition mount_removed :: "panic + FSStat" where
  "mount_removed =
     (case FSStat_Collect FSStat_New
             (Some [''/dev/sda1 / ext4 rw 0 0'', ''/dev/sdb1 /mnt ext4 rw 0 0''])
             statfs_ok of
        Inl e \<Rightarrow> Inl e
      | Inr s \<Rightarrow> FSStat_Collect s (Some [''/dev/sda1 / ext4 rw 0 0'']) statfs_ok)"

definition cgroup_old_tracked :: CgroupStat where
  "cgroup_old_tracked =
     \<lparr>Cgroups = [''/cg/old'' \<mapsto> NewPerCgroupStat ''/cg/old'' ''/cg''], Mountpoint = ''/cg''\<rparr>"

section \<open>Lemmas\<close>

subsection \<open>float64\<close>

lemma f_add_NaN_right [simp]: "f_add x NaN = NaN"
  by (cases x) simp_all

lemma f_mul_NaN_right [simp]: "f_mul x NaN = NaN"
  by (cases x) simp_all

lemma f_div_NaN_right [simp]: "f_div x NaN = NaN"
  by (cases x) simp_all

lemma f_gt_NaN_right [simp]: "f_gt x NaN = False"
  by (cases x) simp_all

lemma f_ne_NaN_right [simp]: "f_ne x NaN = True"
  by (cases x) simp_all

subsection \<open>Counters\<close>

lemma Counter_Get_Set [simp]: "Counter_Get (Counter_Set x now c) = x"
  by (simp add: Counter_Get_def Counter_Set_def)



subsection \<open>parseCPUline\<close>

lemma parseCPUline_Inr:
  "parseCPUline s f now = Inr s' \<Longrightarrow>
     10 \<le> length f \<and>
     Counter_Get (PerCPU.User s') = ParseUint (f ! 1) \<and>
     Counter_Get (PerCPU.UserLowPrio s') = ParseUint (f ! 2) \<and>
     Counter_Get (PerCPU.System s') = ParseUint (f ! 3) \<and>
     Counter_Get (PerCPU.Idle s') = ParseUint (f ! 4) \<and>
     Counter_Get (PerCPU.Iowait s') = ParseUint (f ! 5) \<and>
     Counter_Get (PerCPU.Irq s') = ParseUint (f ! 6) \<and>
     Counter_Get (PerCPU.Softirq s') = ParseUint (f ! 7) \<and>
     Counter_Get (PerCPU.Steal s') = ParseUint (f ! 8) \<and>
     Counter_Get (PerCPU.Guest s') = ParseUint (f ! 9) \<and>
     Counter_Get (PerCPU.Total s') =
       ParseUint (f ! 1) + ParseUint (f ! 2) + ParseUint (f ! 3) + ParseUint (f ! 4)"
  by (auto simp: parseCPUline_def Let_def split: if_splits)


lemma populateComputedStats_counters [simp]:
  "PerCPU.User (populateComputedStats s) = PerCPU.User s"
  "PerCPU.UserLowPrio (populateComputedStats s) = PerCPU.UserLowPrio s"
  "PerCPU.System (populateComputedStats s) = PerCPU.System s"
  "PerCPU.Idle (populateComputedStats s) = PerCPU.Idle s"
  "PerCPU.Total (populateComputedStats s) = PerCPU.Total s"
  by (simp_all add: populateComputedStats_def Let_def)

lemma Total_is_sum_populateComputedStats [simp]:
  "Total_is_sum (populateComputedStats s) = Total_is_sum s"
  by (simp add: Total_is_sum_def)






subsection \<open>The NaN guard of the CPU statistics\<close>

lemma PerCPU_Usage_NaN:
  "\<not> f_gt (ComputeRate (PerCPU.Total o')) (Fin 0) \<or> ComputeRate (PerCPU.User o') = NaN \<or>
   ComputeRate (PerCPU.UserLowPrio o') = NaN \<or> ComputeRate (PerCPU.System o') = NaN \<or>
   ComputeRate (PerCPU.Total o') = NaN \<Longrightarrow> PerCPU_Usage o' = NaN"
  by (auto simp: PerCPU_Usage_def Let_def)

lemma PerCPU_UserSpace_NaN:
  "\<not> f_gt (ComputeRate (PerCPU.Total o')) (Fin 0) \<or> ComputeRate (PerCPU.User o') = NaN \<or>
   ComputeRate (PerCPU.UserLowPrio o') = NaN \<or> ComputeRate (PerCPU.Total o') = NaN
   \<Longrightarrow> PerCPU_UserSpace o' = NaN"
  by (auto simp: PerCPU_UserSpace_def Let_def)

lemma PerCPU_Kernel_NaN:
  "\<not> f_gt (ComputeRate (PerCPU.Total o')) (Fin 0) \<or> ComputeRate (PerCPU.System o') = NaN \<or>
   ComputeRate (PerCPU.Total o') = NaN \<Longrightarrow> PerCPU_Kernel o' = NaN"
  by (auto simp: PerCPU_Kernel_def Let_def)

lemma PerCPU_darwin_Usage_NaN:
  "\<not> f_gt (ComputeRate (PerCPU_darwin.Total o')) (Fin 0) \<or> ComputeRate (PerCPU_darwin.User o') = NaN \<or>
   ComputeRate (PerCPU_darwin.UserLowPrio o') = NaN \<or> ComputeRate (PerCPU_darwin.System o') = NaN \<or>
   ComputeRate (PerCPU_darwin.Total o') = NaN \<Longrightarrow> PerCPU_darwin_Usage o' = NaN"
  by (auto simp: PerCPU_darwin_Usage_def Let_def)

lemma PerCPU_darwin_UserSpace_NaN:
  "\<not> f_gt (ComputeRate (PerCPU_darwin.Total o')) (Fin 0) \<or> ComputeRate (PerCPU_darwin.User o') = NaN \<or>
   ComputeRate (PerCPU_darwin.UserLowPrio o') = NaN \<or> ComputeRate (PerCPU_darwin.Total o') = NaN
   \<Longrightarrow> PerCPU_darwin_UserSpace o' = NaN"
  by (auto simp: PerCPU_darwin_UserSpace_def Let_def)

lemma PerCPU_darwin_Kernel_NaN:
  "\<not> f_gt (ComputeRate (PerCPU_darwin.Total o')) (Fin 0) \<or> ComputeRate (PerCPU_darwin.System o') = NaN \<or>
   ComputeRate (PerCPU_darwin.Total o') = NaN \<Longrightarrow> PerCPU_darwin_Kernel o' = NaN"
  by (auto simp: PerCPU_darwin_Kernel_def Let_def)

subsection \<open>Parsing\<close>

lemma ParseUint_malformed: "strconv_ParseUint x = None \<Longrightarrow> ParseUint x = 0"
  by (simp add: ParseUint_def)

subsection \<open>The cgroup gauges\<close>

lemma cpu_stat_line_gauges:
  "cpu_stat_line s line now = Inr s' \<Longrightarrow> path s' = path s"
  by (auto simp: cpu_stat_line_def Let_def split: if_splits)

lemma cpu_stat_lines_path:
  "cpu_stat_lines s lines now = Inr s' \<Longrightarrow> path s' = path s"
proof (induction lines arbitrary: s)
  case Nil
  then show ?case by simp
next
  case (Cons line rest)
  then show ?case
    by (auto split: sum.splits dest: cpu_stat_line_gauges)
qed

lemma getCgroupCPUTimes_gauges:
  "getCgroupCPUTimes s fs now = Inr s' \<Longrightarrow>
     Cfs_quota_us s' = Cfs_quota_us s \<and> Cfs_period_us s' = Cfs_period_us s"
  by (auto simp: getCgroupCPUTimes_def split: option.splits sum.splits)

lemma PerCgroupStat_Collect_gauges:
  assumes "PerCgroupStat_Collect ticks s fs now = Inr s'"
    and "fs (path s @ ''/'' @ ''cpu.stat'') = Some lines"
  shows "Cfs_quota_us s' =
           float64_of_uint64 (ReadUintFromFile fs (path s @ ''/'' @ ''cpu.cfs_quota_us'')) \<and>
         Cfs_period_us s' =
           float64_of_uint64 (ReadUintFromFile fs (path s @ ''/'' @ ''cpu.cfs_period_us''))"
  using assms
  by (auto simp: PerCgroupStat_Collect_def Let_def split: sum.splits
           dest!: cpu_stat_lines_path getCgroupCPUTimes_gauges)

lemma strconv_ParseUint_minus_one: "strconv_ParseUint ''-1'' = None"
  by (simp add: strconv_ParseUint_def is_digit_def)

lemma ReadUintFromFile_malformed:
  "fs p = Some (line # rest) \<Longrightarrow> strconv_ParseUint line = None \<Longrightarrow> ReadUintFromFile fs p = 0"
  by (simp add: ReadUintFromFile_def ParseUint_def)

lemma float64_of_uint64_not_negative: "\<not> f_gt (Fin 0) (float64_of_uint64 x)"
proof -
  have "0 \<le> real (unat x)"
    by (rule of_nat_0_le_iff)
  then show ?thesis
    unfolding float64_of_uint64_def by (simp only: f_gt.simps not_less)
qed

lemma f_div_zero_uint64: "f_div (Fin 0) (float64_of_uint64 x) = Fin 0 \<or> f_div (Fin 0) (float64_of_uint64 x) = NaN"
  by (simp add: float64_of_uint64_def)

subsection \<open>The process collector\<close>

lemma dead_CollectAttributes [simp]: "dead (CollectAttributes s task) = dead s"
  by (simp add: CollectAttributes_def)

lemma dead_NewPerProcessStat [simp]: "dead (NewPerProcessStat p) = False"
  by (simp add: NewPerProcessStat_def)

lemma Collect_task_skip:
  "task_spid task = None \<Longrightarrow> Collect_task ca tb now h task = h"
  by (auto simp: task_spid_def Collect_task_def split: option.splits if_splits)

lemma Collect_task_other:
  "task_spid task \<noteq> Some k \<Longrightarrow> Collect_task ca tb now h task k = h k"
  by (auto simp: task_spid_def Collect_task_def Let_def split: option.splits if_splits)

lemma Collect_task_dom:
  "task_spid task = Some k \<Longrightarrow> dom (Collect_task ca tb now h task) = insert k (dom h)"
  by (auto simp: task_spid_def Collect_task_def Let_def split: option.splits if_splits)

lemma Collect_task_marked_dead:
  "task_spid task = Some k \<Longrightarrow>
   marked_dead (Collect_task ca tb now h task) k =
     (marked_dead h k \<and> TASK_ABSOLUTETIME_INFO task = None)"
  by (auto simp: task_spid_def Collect_task_def marked_dead_def Let_def
           split: option.splits if_splits)

lemma foldl_Collect_task_dom:
  "dom (foldl (Collect_task ca tb now) h ts) =
     dom h \<union> {k. \<exists>t\<in>set ts. task_spid t = Some k}"
proof (induction ts arbitrary: h)
  case Nil
  then show ?case by simp
next
  case (Cons t ts)
  show ?case
  proof (cases "task_spid t")
    case None
    then show ?thesis
      by (simp add: Cons.IH Collect_task_skip)
  next
    case (Some k)
    then show ?thesis
      by (auto simp: Cons.IH Collect_task_dom)
  qed
qed

lemma foldl_Collect_task_marked_dead:
  "marked_dead (foldl (Collect_task ca tb now) h ts) k =
     (marked_dead h k \<and>
      \<not> (\<exists>t\<in>set ts. task_spid t = Some k \<and> TASK_ABSOLUTETIME_INFO t \<noteq> None))"
proof (induction ts arbitrary: h)
  case Nil
  then show ?case by simp
next
  case (Cons t ts)
  show ?case
  proof (cases "task_spid t = Some k")
    case True
    then show ?thesis
      by (auto simp: Cons.IH Collect_task_marked_dead)
  next
    case False
    then have "marked_dead (Collect_task ca tb now h t) k = marked_dead h k"
      by (simp add: marked_dead_def Collect_task_other)
    with False show ?thesis
      by (auto simp: Cons.IH)
  qed
qed

lemma dom_mark_dead [simp]: "dom (mark_dead h) = dom h"
  by (auto simp: mark_dead_def split: option.splits)

lemma marked_dead_mark_dead [simp]: "marked_dead (mark_dead h) k = (k \<in> dom h)"
  by (auto simp: mark_dead_def marked_dead_def split: option.splits)

lemma dom_remove_dead: "dom (remove_dead h) = {k \<in> dom h. \<not> marked_dead h k}"
  by (auto simp: remove_dead_def marked_dead_def split: option.splits if_splits)

lemma ProcessStat_Collect_tasks:
  "processor_set_default host \<Longrightarrow> host_processor_set_priv host \<Longrightarrow>
   processor_set_tasks host = Some ts \<Longrightarrow>
   Processes (ProcessStat_Collect c ca host now) =
     remove_dead (foldl (Collect_task ca (timebase host) now) (mark_dead (Processes c)) ts)"
  by (simp add: ProcessStat_Collect_def Let_def)

lemma ProcessStat_Collect_dom:
  assumes "processor_set_default host" "host_processor_set_priv host"
    "processor_set_tasks host = Some ts"
  shows "dom (Processes (ProcessStat_Collect c ca host now)) =
     {k. \<exists>t\<in>set ts. task_spid t = Some k \<and>
           (TASK_ABSOLUTETIME_INFO t \<noteq> None \<or> k \<notin> dom (Processes c))}"
  unfolding ProcessStat_Collect_tasks [OF assms] dom_remove_dead
    foldl_Collect_task_dom foldl_Collect_task_marked_dead
  by auto

lemma ProcessStat_Collect_failed:
  "\<not> (processor_set_default host \<and> host_processor_set_priv host \<and>
      processor_set_tasks host \<noteq> None) \<Longrightarrow>
   dom (Processes (ProcessStat_Collect c ca host now)) = dom (Processes c)"
  by (auto simp: ProcessStat_Collect_def Let_def split: option.splits)

lemma foldl_Collect_task_other:
  "\<forall>t\<in>set ts. task_spid t \<noteq> Some k \<Longrightarrow> foldl (Collect_task ca tb now) h ts k = h k"
  by (induction ts arbitrary: h) (simp_all add: Collect_task_other)

lemma Collect_task_new:
  "h k = None \<Longrightarrow> task_spid t = Some k \<Longrightarrow>
   Collect_task ca tb now h t k = Collect_task ca tb now Map.empty t k"
  by (auto simp: task_spid_def Collect_task_def Let_def split: option.splits if_splits)

lemma remove_dead_alive: "\<not> marked_dead h k \<Longrightarrow> remove_dead h k = h k"
  by (auto simp: remove_dead_def marked_dead_def split: option.splits)

lemma mark_dead_None: "h k = None \<Longrightarrow> mark_dead h k = None"
  by (simp add: mark_dead_def)

lemma ProcessStat_Collect_new_entity:
  assumes host: "processor_set_default host" "host_processor_set_priv host"
    "processor_set_tasks host = Some (pre @ t # post)"
    and new: "k \<notin> dom (Processes c)"
    and key: "task_spid t = Some k"
    and others: "\<forall>u\<in>set (pre @ post). task_spid u \<noteq> Some k"
  shows "Processes (ProcessStat_Collect c ca host now) k =
           Collect_task ca (timebase host) now Map.empty t k"
proof -
  let ?step = "Collect_task ca (timebase host) now"
  let ?h0 = "mark_dead (Processes c)"
  let ?h1 = "foldl ?step ?h0 pre"
  from new have "?h0 k = None"
    by (simp add: mark_dead_None domIff)
  with others have h1: "?h1 k = None"
    by (simp add: foldl_Collect_task_other)
  have fold: "foldl ?step ?h0 (pre @ t # post) = foldl ?step (?step ?h1 t) post"
    by simp
  from others have post: "foldl ?step (?step ?h1 t) post k = ?step ?h1 t k"
    by (simp add: foldl_Collect_task_other)
  have alive: "\<not> marked_dead (foldl ?step ?h0 (pre @ t # post)) k"
    unfolding foldl_Collect_task_marked_dead using new by simp
  have "Processes (ProcessStat_Collect c ca host now) k = foldl ?step ?h0 (pre @ t # post) k"
    unfolding ProcessStat_Collect_tasks [OF host] using alive by (rule remove_dead_alive)
  also have "\<dots> = ?step ?h1 t k"
    using fold post by simp
  also have "\<dots> = ?step Map.empty t k"
    using h1 key by (rule Collect_task_new)
  finally show ?thesis .
qed

lemma Sprintf_v_7: "Sprintf_v 7 = ''7''"
  by (simp add: Sprintf_v_def decimal_digits.simps digit_char_def)

lemma task_spid_task_7: "task_spid (task_7 b) = Some ''7''"
  by (simp add: task_spid_def task_7_def Sprintf_v_7)

lemma host_with_tasks_ok:
  "processor_set_default (host_with_tasks ts)" "host_processor_set_priv (host_with_tasks ts)"
  "processor_set_tasks (host_with_tasks ts) = Some ts"
  by (simp_all add: host_with_tasks_def)

subsection \<open>The cgroup collector\<close>

lemma CgroupStat_Collect_each_dom:
  "CgroupStat_Collect_each ticks m cgroups mountpoint fs now = Inr m' \<Longrightarrow>
   dom m' = dom m \<union> set cgroups"
proof (induction cgroups arbitrary: m)
  case Nil
  then show ?case by simp
next
  case (Cons cgroup rest)
  then show ?case
    by (auto simp: Let_def split: sum.splits)
qed

lemma CgroupStat_Collect_dom:
  "CgroupStat_Collect ticks c cgroups mountpoint fs now = Inr c' \<Longrightarrow>
   dom (Cgroups c') = set cgroups"
proof -
  let ?kept = "\<lambda>cgroup. if cgroup \<in> set cgroups then Cgroups c cgroup else None"
  assume "CgroupStat_Collect ticks c cgroups mountpoint fs now = Inr c'"
  then obtain m where
    m: "CgroupStat_Collect_each ticks ?kept cgroups mountpoint fs now = Inr m"
    and c': "Cgroups c' = m"
    by (auto simp: CgroupStat_Collect_def Let_def split: sum.splits)
  have "dom ?kept \<subseteq> set cgroups"
    by (auto split: if_splits)
  with CgroupStat_Collect_each_dom [OF m] c' show ?thesis
    by auto
qed

lemma CgroupStat_Collect_each_other:
  "CgroupStat_Collect_each ticks m cgroups mountpoint fs now = Inr m' \<Longrightarrow> k \<notin> set cgroups \<Longrightarrow>
   m' k = m k"
proof (induction cgroups arbitrary: m)
  case Nil
  then show ?case by simp
next
  case (Cons cgroup rest)
  then show ?case
    by (auto simp: Let_def split: sum.splits)
qed

lemma CgroupStat_Collect_each_new:
  "CgroupStat_Collect_each ticks m cgroups mountpoint fs now = Inr m' \<Longrightarrow> distinct cgroups \<Longrightarrow>
   k \<in> set cgroups \<Longrightarrow> m k = None \<Longrightarrow>
   PerCgroupStat_Collect ticks (NewPerCgroupStat k mountpoint) fs now = Inr (the (m' k)) \<and> m' k \<noteq> None"
proof (induction cgroups arbitrary: m)
  case Nil
  then show ?case by simp
next
  case (Cons cgroup rest)
  show ?case
  proof (cases "cgroup = k")
    case True
    with Cons.prems obtain e' where
      e': "PerCgroupStat_Collect ticks (NewPerCgroupStat k mountpoint) fs now = Inr e'"
      and rest: "CgroupStat_Collect_each ticks (m(k \<mapsto> e')) rest mountpoint fs now = Inr m'"
      by (auto simp: Let_def split: sum.splits)
    from Cons.prems(2) True have "k \<notin> set rest" by simp
    with rest have "m' k = Some e'"
      by (simp add: CgroupStat_Collect_each_other)
    with e' show ?thesis by simp
  next
    case False
    with Cons.prems obtain e' where
      rest: "CgroupStat_Collect_each ticks (m(cgroup \<mapsto> e')) rest mountpoint fs now = Inr m'"
      by (auto simp: Let_def split: sum.splits)
    from False Cons.prems have "distinct rest" "k \<in> set rest" "(m(cgroup \<mapsto> e')) k = None"
      by auto
    with Cons.IH [OF rest] show ?thesis by blast
  qed
qed

lemma CgroupStat_Collect_new:
  assumes "CgroupStat_Collect ticks c cgroups mountpoint fs now = Inr c'" "distinct cgroups"
    "k \<in> set cgroups" "k \<notin> dom (Cgroups c)"
  shows "PerCgroupStat_Collect ticks (NewPerCgroupStat k mountpoint) fs now = Inr (the (Cgroups c' k))"
proof -
  let ?kept = "\<lambda>cgroup. if cgroup \<in> set cgroups then Cgroups c cgroup else None"
  from assms(1) obtain m where
    m: "CgroupStat_Collect_each ticks ?kept cgroups mountpoint fs now = Inr m" and c': "Cgroups c' = m"
    by (auto simp: CgroupStat_Collect_def Let_def split: sum.splits)
  from assms(4) have "?kept k = None"
    by (simp add: domIff)
  from CgroupStat_Collect_each_new [OF m assms(2,3) this] c' show ?thesis
    by simp
qed

subsection \<open>The per-core map of the Linux CPU collector\<close>

lemma split_go_not_Nil [simp]: "split_go inws piece rest \<noteq> []"
  by (induction rest arbitrary: inws piece) auto

lemma split_ws_not_Nil [simp]: "split_ws line \<noteq> []"
  by (simp add: split_ws_def)

lemma CPUStat_Collect_line_dom:
  "CPUStat_Collect_line s line now = Inr s' \<Longrightarrow>
   dom (cpus s') = dom (cpus s) \<union> cpu_names [line]"
  by (auto simp: CPUStat_Collect_line_def cpu_names_def Let_def
           split: list.splits if_splits sum.splits)

lemma cpu_names_Cons: "cpu_names (line # rest) = cpu_names [line] \<union> cpu_names rest"
  by (auto simp: cpu_names_def)

lemma CPUStat_Collect_lines_dom:
  "CPUStat_Collect_lines s lines now = Inr s' \<Longrightarrow>
   dom (cpus s') = dom (cpus s) \<union> cpu_names lines"
proof (induction lines arbitrary: s)
  case Nil
  then show ?case by (simp add: cpu_names_def)
next
  case (Cons line rest)
  from Cons.prems obtain s1 where
    1: "CPUStat_Collect_line s line now = Inr s1" and 2: "CPUStat_Collect_lines s1 rest now = Inr s'"
    by (auto split: sum.splits)
  from Cons.IH [OF 2] CPUStat_Collect_line_dom [OF 1] show ?case
    by (subst cpu_names_Cons) blast
qed

lemma CPUStat_Collect_dom:
  "CPUStat_Collect s (Some lines) now = Inr s' \<Longrightarrow>
   dom (cpus s') = dom (cpus s) \<union> cpu_names lines"
  by (simp add: CPUStat_Collect_def CPUStat_Collect_lines_dom)

lemma parseCPUline_returns:
  "10 \<le> length f \<Longrightarrow> \<exists>s'. parseCPUline s f now = Inr s'"
  by (simp add: parseCPUline_def Let_def)

lemma CPUStat_Collect_line_returns:
  "10 \<le> length (split_ws line) \<Longrightarrow> \<exists>s'. CPUStat_Collect_line s line now = Inr s'"
proof -
  assume len: "10 \<le> length (split_ws line)"
  then obtain f0 fs where f: "split_ws line = f0 # fs"
    by (cases "split_ws line") auto
  from len f parseCPUline_returns [of "f0 # fs" "All s" now]
    parseCPUline_returns [of "f0 # fs" "case cpus s f0 of None \<Rightarrow> NewPerCPU | Some c \<Rightarrow> c" now]
  show ?thesis
    by (auto simp: CPUStat_Collect_line_def Let_def)
qed

lemma CPUStat_Collect_lines_returns:
  "list_all (\<lambda>line. 10 \<le> length (split_ws line)) lines \<Longrightarrow>
   \<exists>s'. CPUStat_Collect_lines s lines now = Inr s'"
proof (induction lines arbitrary: s)
  case Nil
  then show ?case by simp
next
  case (Cons line rest)
  then obtain s1 where "CPUStat_Collect_line s line now = Inr s1"
    using CPUStat_Collect_line_returns [of line s now] by auto
  with Cons show ?case by simp
qed

subsection \<open>A per-entity read that fails\<close>

lemma PerFSStat_Collect_failed: "statfs (mp e) = None \<Longrightarrow> PerFSStat_Collect e statfs = e"
  by (simp add: PerFSStat_Collect_def)

lemma FSStat_Collect_line_failed:
  "FSStat_Collect_line s line statfs = Inr s' \<Longrightarrow> FS s k = Some e \<Longrightarrow>
   statfs (mp e) = None \<Longrightarrow> FS s' k = Some e"
  by (auto simp: FSStat_Collect_line_def Let_def PerFSStat_Collect_failed split: if_splits)

lemma FSStat_Collect_lines_failed:
  "FSStat_Collect_lines s lines statfs = Inr s' \<Longrightarrow> FS s k = Some e \<Longrightarrow>
   statfs (mp e) = None \<Longrightarrow> FS s' k = Some e"
proof (induction lines arbitrary: s)
  case Nil
  then show ?case by simp
next
  case (Cons line rest)
  from Cons.prems(1) obtain s1 where
    1: "FSStat_Collect_line s line statfs = Inr s1"
    and 2: "FSStat_Collect_lines s1 rest statfs = Inr s'"
    by (auto split: sum.splits)
  from FSStat_Collect_line_failed [OF 1 Cons.prems(2,3)] have "FS s1 k = Some e" .
  from Cons.IH [OF 2 this Cons.prems(3)] show ?case .
qed

lemma FSStat_Collect_failed:
  "FSStat_Collect s mtab statfs = Inr s' \<Longrightarrow> FS s k = Some e \<Longrightarrow>
   statfs (mp e) = None \<Longrightarrow> FS s' k = Some e"
  by (cases mtab) (auto simp: FSStat_Collect_def dest: FSStat_Collect_lines_failed)

lemma PerCgroupStat_Collect_failed:
  "fs (path g @ ''/'' @ ''cpu.stat'') = None \<Longrightarrow> PerCgroupStat_Collect ticks g fs now = Inr g"
  by (simp add: PerCgroupStat_Collect_def)

lemma CgroupStat_Collect_each_failed:
  "CgroupStat_Collect_each ticks m cgroups mountpoint fs now = Inr m' \<Longrightarrow> m k = Some g \<Longrightarrow>
   fs (path g @ ''/'' @ ''cpu.stat'') = None \<Longrightarrow> m' k = Some g"
proof (induction cgroups arbitrary: m)
  case Nil
  then show ?case by simp
next
  case (Cons cgroup rest)
  show ?case
  proof (cases "cgroup = k")
    case True
    with Cons.prems have "CgroupStat_Collect_each ticks (m(k \<mapsto> g)) rest mountpoint fs now = Inr m'"
      by (simp add: PerCgroupStat_Collect_failed)
    from Cons.IH [OF this _ Cons.prems(3)] show ?thesis by simp
  next
    case False
    with Cons.prems obtain e' where
      rest: "CgroupStat_Collect_each ticks (m(cgroup \<mapsto> e')) rest mountpoint fs now = Inr m'"
      by (auto simp: Let_def split: sum.splits)
    from False Cons.prems(2) have "(m(cgroup \<mapsto> e')) k = Some g" by simp
    from Cons.IH [OF rest this Cons.prems(3)] show ?thesis .
  qed
qed

lemma CgroupStat_Collect_failed:
  assumes "CgroupStat_Collect ticks c cgroups mountpoint fs now = Inr c'"
    "k \<in> set cgroups" "Cgroups c k = Some g" "fs (path g @ ''/'' @ ''cpu.stat'') = None"
  shows "Cgroups c' k = Some g"
proof -
  let ?kept = "\<lambda>cgroup. if cgroup \<in> set cgroups then Cgroups c cgroup else None"
  from assms(1) obtain m where
    m: "CgroupStat_Collect_each ticks ?kept cgroups mountpoint fs now = Inr m"
    and c': "Cgroups c' = m"
    by (auto simp: CgroupStat_Collect_def Let_def split: sum.splits)
  from assms(2,3) have "?kept k = Some g" by simp
  from CgroupStat_Collect_each_failed [OF m this assms(4)] c' show ?thesis by simp
qed

section \<open>The claims\<close>

text \<open>
  C1, as the specification states it, fails: a statistic is not NaN because a
  rate it does not read is NaN. \<^verbatim>\<open>Kernel()\<close> reads the rates of \<^verbatim>\<open>System\<close> and
  \<^verbatim>\<open>Total\<close> only: where the \<^verbatim>\<open>User\<close> rate is NaN, the \<^verbatim>\<open>System\<close> rate 5 and
  the \<^verbatim>\<open>Total\<close> rate 100, it returns 5.
\<close>

theorem PerCPU_Kernel_counterexample:
  "ComputeRate (PerCPU.User PerCPU_User_rate_NaN) = NaN \<and>
   ComputeRate (PerCPU.System PerCPU_User_rate_NaN) = Fin 5 \<and>
   ComputeRate (PerCPU.Total PerCPU_User_rate_NaN) = Fin 100 \<and>
   PerCPU_Kernel PerCPU_User_rate_NaN = Fin 5"
  by (simp add: PerCPU_User_rate_NaN_def PerCPU_Kernel_def ComputeRate_def Counter_Set_def
        NewPerCPU_def)

text \<open>
  C1, amended: on both backends each derived statistic of a \<^verbatim>\<open>PerCPU\<close>
  returns NaN whenever the rate of \<^verbatim>\<open>Total\<close> is not greater than zero or one
  of the rates it reads is NaN: \<^verbatim>\<open>Usage\<close> reads all four, \<^verbatim>\<open>UserSpace\<close> reads
  \<^verbatim>\<open>User\<close>, \<^verbatim>\<open>UserLowPrio\<close> and \<^verbatim>\<open>Total\<close>, \<^verbatim>\<open>Kernel\<close> reads \<^verbatim>\<open>System\<close>
  and \<^verbatim>\<open>Total\<close>. A total rate of 0 gives NaN: the division is not reached.
  The comparisons with \<^verbatim>\<open>math.NaN()\<close> in the code always hold; the result is
  NaN all the same, by the test \<^verbatim>\<open>t > 0\<close> and because NaN propagates through
  the arithmetic.
\<close>

theorem PerCPU_stats_NaN:
  "(\<not> f_gt (ComputeRate (PerCPU.Total o')) (Fin 0) \<or> ComputeRate (PerCPU.User o') = NaN \<or>
    ComputeRate (PerCPU.UserLowPrio o') = NaN \<or> ComputeRate (PerCPU.System o') = NaN \<or>
    ComputeRate (PerCPU.Total o') = NaN \<longrightarrow> PerCPU_Usage o' = NaN) \<and>
   (\<not> f_gt (ComputeRate (PerCPU.Total o')) (Fin 0) \<or> ComputeRate (PerCPU.User o') = NaN \<or>
    ComputeRate (PerCPU.UserLowPrio o') = NaN \<or> ComputeRate (PerCPU.Total o') = NaN \<longrightarrow>
      PerCPU_UserSpace o' = NaN) \<and>
   (\<not> f_gt (ComputeRate (PerCPU.Total o')) (Fin 0) \<or> ComputeRate (PerCPU.System o') = NaN \<or>
    ComputeRate (PerCPU.Total o') = NaN \<longrightarrow> PerCPU_Kernel o' = NaN) \<and>
   (\<not> f_gt (ComputeRate (PerCPU_darwin.Total d)) (Fin 0) \<or>
    ComputeRate (PerCPU_darwin.User d) = NaN \<or> ComputeRate (PerCPU_darwin.UserLowPrio d) = NaN \<or>
    ComputeRate (PerCPU_darwin.System d) = NaN \<or> ComputeRate (PerCPU_darwin.Total d) = NaN \<longrightarrow>
      PerCPU_darwin_Usage d = NaN) \<and>
   (\<not> f_gt (ComputeRate (PerCPU_darwin.Total d)) (Fin 0) \<or>
    ComputeRate (PerCPU_darwin.User d) = NaN \<or> ComputeRate (PerCPU_darwin.UserLowPrio d) = NaN \<or>
    ComputeRate (PerCPU_darwin.Total d) = NaN \<longrightarrow> PerCPU_darwin_UserSpace d = NaN) \<and>
   (\<not> f_gt (ComputeRate (PerCPU_darwin.Total d)) (Fin 0) \<or>
    ComputeRate (PerCPU_darwin.System d) = NaN \<or> ComputeRate (PerCPU_darwin.Total d) = NaN \<longrightarrow>
      PerCPU_darwin_Kernel d = NaN)"
  using PerCPU_Usage_NaN [of o'] PerCPU_UserSpace_NaN [of o'] PerCPU_Kernel_NaN [of o']
    PerCPU_darwin_Usage_NaN [of d] PerCPU_darwin_UserSpace_NaN [of d]
    PerCPU_darwin_Kernel_NaN [of d]
  by (intro conjI impI) blast+

theorem PerCPU_stats_NaN_witness:
  "ComputeRate (PerCPU.Total PerCPU_zero_total_rate) = Fin 0 \<and>
   PerCPU_Usage PerCPU_zero_total_rate = NaN \<and>
   PerCPU_UserSpace PerCPU_zero_total_rate = NaN \<and>
   PerCPU_Kernel PerCPU_zero_total_rate = NaN \<and>
   ComputeRate (PerCPU.User PerCPU_User_rate_NaN) = NaN \<and>
   PerCPU_Usage PerCPU_User_rate_NaN = NaN \<and>
   PerCPU_UserSpace PerCPU_User_rate_NaN = NaN \<and>
   ComputeRate (PerCPU_darwin.Total PerCPU_darwin_zero_total_rate) = Fin 0 \<and>
   PerCPU_darwin_Usage PerCPU_darwin_zero_total_rate = NaN \<and>
   PerCPU_darwin_UserSpace PerCPU_darwin_zero_total_rate = NaN \<and>
   PerCPU_darwin_Kernel PerCPU_darwin_zero_total_rate = NaN"
proof -
  have zero: "ComputeRate (PerCPU.Total PerCPU_zero_total_rate) = Fin 0"
    by (simp add: PerCPU_zero_total_rate_def ComputeRate_def Counter_Set_def)
  then have guard: "\<not> f_gt (ComputeRate (PerCPU.Total PerCPU_zero_total_rate)) (Fin 0)"
    by simp
  have user: "ComputeRate (PerCPU.User PerCPU_User_rate_NaN) = NaN"
    by (simp add: PerCPU_User_rate_NaN_def ComputeRate_def Counter_Set_def)
  have dzero: "ComputeRate (PerCPU_darwin.Total PerCPU_darwin_zero_total_rate) = Fin 0"
    by (simp add: PerCPU_darwin_zero_total_rate_def CPUStat_darwin_Collect_def
          ComputeRate_def Counter_Set_def Let_def)
  then have dguard:
    "\<not> f_gt (ComputeRate (PerCPU_darwin.Total PerCPU_darwin_zero_total_rate)) (Fin 0)"
    by simp
  note claim_zero = PerCPU_stats_NaN [of PerCPU_zero_total_rate PerCPU_darwin_zero_total_rate]
  note claim_user = PerCPU_stats_NaN [of PerCPU_User_rate_NaN PerCPU_darwin_zero_total_rate]
  from claim_zero guard have linux:
    "PerCPU_Usage PerCPU_zero_total_rate = NaN"
    "PerCPU_UserSpace PerCPU_zero_total_rate = NaN"
    "PerCPU_Kernel PerCPU_zero_total_rate = NaN"
    by blast+
  from claim_user user have propagated:
    "PerCPU_Usage PerCPU_User_rate_NaN = NaN"
    "PerCPU_UserSpace PerCPU_User_rate_NaN = NaN"
    by blast+
  from claim_zero dguard have darwin:
    "PerCPU_darwin_Usage PerCPU_darwin_zero_total_rate = NaN"
    "PerCPU_darwin_UserSpace PerCPU_darwin_zero_total_rate = NaN"
    "PerCPU_darwin_Kernel PerCPU_darwin_zero_total_rate = NaN"
    by blast+
  from zero linux user propagated dzero darwin show ?thesis
    by (intro conjI)
qed

text \<open>
  C2, as the specification states it, fails: not every collector removes the
  keys it no longer discovers. The Linux CPU collector has no removal at all:
  after a pass that lists only \<^verbatim>\<open>cpu0\<close> it still holds \<^verbatim>\<open>cpu1\<close>. Neither
  does \<^verbatim>\<open>FSStat.Collect\<close> of \<^verbatim>\<open>src/cpustat/cpustat_linux.go\<close>: after a pass
  that lists only \<^verbatim>\<open>/\<close> it still holds \<^verbatim>\<open>/mnt\<close>.
\<close>

theorem registry_counterexample:
  "\<not> isl cpu_core_removed \<and>
   dom (cpus (projr cpu_core_removed)) = {''cpu0'', ''cpu1''} \<and>
   \<not> isl mount_removed \<and>
   dom (FS (projr mount_removed)) = {''/'', ''/mnt''}"
proof -
  let ?l1 = "[''cpu 2 0 2 96 0 0 0 0 0'', ''cpu0 1 0 1 48 0 0 0 0 0'',
                    ''cpu1 1 0 1 48 0 0 0 0 0'']"
  let ?l2 = "[''cpu 3 0 3 144 0 0 0 0 0'', ''cpu0 3 0 3 144 0 0 0 0 0'']"
  have fields: "list_all (\<lambda>line. 10 \<le> length (split_ws line)) ?l1"
    "list_all (\<lambda>line. 10 \<le> length (split_ws line)) ?l2"
    by (simp_all add: split_ws_def is_space_def)
  have names: "cpu_names ?l1 = {''cpu0'', ''cpu1''}" "cpu_names ?l2 = {''cpu0''}"
    by (auto simp: cpu_names_def split_ws_def is_space_def)
  from CPUStat_Collect_lines_returns [OF fields(1)] obtain s1 where
    s1: "CPUStat_Collect CPUStat_New (Some ?l1) 0 = Inr s1"
    by (auto simp: CPUStat_Collect_def)
  from CPUStat_Collect_lines_returns [OF fields(2)] obtain s2 where
    s2: "CPUStat_Collect s1 (Some ?l2) 1000000000 = Inr s2"
    by (auto simp: CPUStat_Collect_def)
  from CPUStat_Collect_dom [OF s1] names have "dom (cpus s1) = {''cpu0'', ''cpu1''}"
    by (simp add: CPUStat_New_def)
  with CPUStat_Collect_dom [OF s2] names have keys: "dom (cpus s2) = {''cpu0'', ''cpu1''}"
    by auto
  have result: "cpu_core_removed = Inr s2"
    by (simp add: cpu_core_removed_def s1 s2)
  have cpu: "\<not> isl cpu_core_removed \<and>
      dom (cpus (projr cpu_core_removed)) = {''cpu0'', ''cpu1''}"
    unfolding result using keys by simp
  have mount: "\<not> isl mount_removed \<and> dom (FS (projr mount_removed)) = {''/'', ''/mnt''}"
    by (simp add: mount_removed_def FSStat_Collect_def FSStat_Collect_line_def strings_Split_def
          FSStat_New_def Let_def insert_commute)
  from conjunct1 [OF cpu] conjunct2 [OF cpu] conjunct1 [OF mount] conjunct2 [OF mount]
  show ?thesis
    by (intro conjI)
qed

text \<open>
  C2, amended. The cgroup collector: after every pass that returns, the key
  set is exactly the set of discovered cgroups, and a cgroup discovered for
  the first time holds what its first \<^verbatim>\<open>Collect\<close> makes of a newly constructed
  entity. The process collector: after every pass that obtains the task
  list, the key set is exactly the set of pids of that pass (read, not
  negative, basic info read) whose absolute-time info was read or which were
  not tracked before; it is the whole set of those pids when every
  absolute-time read succeeds; a pid seen for the first time, by one task,
  holds what the loop body makes of a newly constructed entity. The Linux CPU
  collector only adds: after a pass the keys are the old keys and the
  per-core names of that pass.
\<close>

theorem registry_reconciled:
  "(CgroupStat_Collect ticks c cgroups mountpoint fs now = Inr c' \<longrightarrow>
      dom (Cgroups c') = set cgroups) \<and>
   (CgroupStat_Collect ticks c cgroups mountpoint fs now = Inr c' \<and> distinct cgroups \<and>
    k \<in> set cgroups \<and> k \<notin> dom (Cgroups c) \<longrightarrow>
      PerCgroupStat_Collect ticks (NewPerCgroupStat k mountpoint) fs now =
        Inr (the (Cgroups c' k))) \<and>
   (processor_set_default host \<and> host_processor_set_priv host \<and>
    processor_set_tasks host = Some ts \<longrightarrow>
      dom (Processes (ProcessStat_Collect p ca host now)) =
        {k. \<exists>t\<in>set ts. task_spid t = Some k \<and>
              (TASK_ABSOLUTETIME_INFO t \<noteq> None \<or> k \<notin> dom (Processes p))}) \<and>
   (processor_set_default host \<and> host_processor_set_priv host \<and>
    processor_set_tasks host = Some ts \<and>
    (\<forall>t\<in>set ts. task_spid t = None \<or> TASK_ABSOLUTETIME_INFO t \<noteq> None) \<longrightarrow>
      dom (Processes (ProcessStat_Collect p ca host now)) =
        {k. \<exists>t\<in>set ts. task_spid t = Some k}) \<and>
   (processor_set_default host \<and> host_processor_set_priv host \<and>
    processor_set_tasks host = Some (pre @ t # post) \<and> k \<notin> dom (Processes p) \<and>
    task_spid t = Some k \<and> (\<forall>u\<in>set (pre @ post). task_spid u \<noteq> Some k) \<longrightarrow>
      Processes (ProcessStat_Collect p ca host now) k =
        Collect_task ca (timebase host) now Map.empty t k) \<and>
   (CPUStat_Collect s (Some lines) now = Inr s' \<longrightarrow>
      dom (cpus s') = dom (cpus s) \<union> cpu_names lines)"
proof -
  have cgroup_keys: "CgroupStat_Collect ticks c cgroups mountpoint fs now = Inr c' \<longrightarrow>
      dom (Cgroups c') = set cgroups"
    using CgroupStat_Collect_dom by blast
  have cgroup_new: "CgroupStat_Collect ticks c cgroups mountpoint fs now = Inr c' \<and>
      distinct cgroups \<and> k \<in> set cgroups \<and> k \<notin> dom (Cgroups c) \<longrightarrow>
      PerCgroupStat_Collect ticks (NewPerCgroupStat k mountpoint) fs now =
        Inr (the (Cgroups c' k))"
    using CgroupStat_Collect_new by blast
  have process_keys: "processor_set_default host \<and> host_processor_set_priv host \<and>
    processor_set_tasks host = Some ts \<longrightarrow>
      dom (Processes (ProcessStat_Collect p ca host now)) =
        {k. \<exists>t\<in>set ts. task_spid t = Some k \<and>
              (TASK_ABSOLUTETIME_INFO t \<noteq> None \<or> k \<notin> dom (Processes p))}"
    using ProcessStat_Collect_dom by blast
  have process_all_read: "processor_set_default host \<and> host_processor_set_priv host \<and>
    processor_set_tasks host = Some ts \<and>
    (\<forall>t\<in>set ts. task_spid t = None \<or> TASK_ABSOLUTETIME_INFO t \<noteq> None) \<longrightarrow>
      dom (Processes (ProcessStat_Collect p ca host now)) =
        {k. \<exists>t\<in>set ts. task_spid t = Some k}"
  proof (intro impI, elim conjE)
    assume host: "processor_set_default host" "host_processor_set_priv host"
      "processor_set_tasks host = Some ts"
      and all_read: "\<forall>t\<in>set ts. task_spid t = None \<or> TASK_ABSOLUTETIME_INFO t \<noteq> None"
    show "dom (Processes (ProcessStat_Collect p ca host now)) =
        {k. \<exists>t\<in>set ts. task_spid t = Some k}"
      unfolding ProcessStat_Collect_dom [OF host] using all_read by fastforce
  qed
  have process_new: "processor_set_default host \<and> host_processor_set_priv host \<and>
    processor_set_tasks host = Some (pre @ t # post) \<and> k \<notin> dom (Processes p) \<and>
    task_spid t = Some k \<and> (\<forall>u\<in>set (pre @ post). task_spid u \<noteq> Some k) \<longrightarrow>
      Processes (ProcessStat_Collect p ca host now) k =
        Collect_task ca (timebase host) now Map.empty t k"
    using ProcessStat_Collect_new_entity by blast
  have cpu_keys: "CPUStat_Collect s (Some lines) now = Inr s' \<longrightarrow>
      dom (cpus s') = dom (cpus s) \<union> cpu_names lines"
    using CPUStat_Collect_dom by blast
  from cgroup_keys cgroup_new process_keys process_all_read process_new cpu_keys
  show ?thesis
    by (intro conjI)
qed

theorem registry_reconciled_witness:
  "CgroupStat_Collect 100 cgroup_old_tracked [''/cg/a''] ''/cg'' quota_unset_files 0 =
     Inr (projr (CgroupStat_Collect 100 cgroup_old_tracked [''/cg/a''] ''/cg''
                   quota_unset_files 0)) \<and>
   dom (Cgroups cgroup_old_tracked) = {''/cg/old''} \<and>
   dom (Cgroups (projr (CgroupStat_Collect 100 cgroup_old_tracked [''/cg/a''] ''/cg''
                   quota_unset_files 0))) = {''/cg/a''} \<and>
   dom (Processes pid_7_tracked) = {''7''}"
proof -
  let ?pass = "CgroupStat_Collect 100 cgroup_old_tracked [''/cg/a''] ''/cg'' quota_unset_files 0"
  have pass: "?pass = Inr (projr ?pass)"
    by (simp add: CgroupStat_Collect_def cgroup_old_tracked_def PerCgroupStat_Collect_def
          cpu_stat_line_def split_ws2_def is_space_def getCgroupCPUTimes_def
          NewPerCgroupStat_def quota_unset_files_def Let_def)
  have old: "dom (Cgroups cgroup_old_tracked) = {''/cg/old''}"
    by (simp add: cgroup_old_tracked_def)
  note claim = registry_reconciled
      [of 100 cgroup_old_tracked "[''/cg/a'']" "''/cg''" quota_unset_files 0 "projr ?pass"
          "''/cg/a''" "host_with_tasks [task_7 True]" "[task_7 True]" ProcessStat_New True]
  from claim pass have new: "dom (Cgroups (projr ?pass)) = {''/cg/a''}"
    by simp
  have read: "\<forall>t\<in>set [task_7 True]. task_spid t = None \<or> TASK_ABSOLUTETIME_INFO t \<noteq> None"
    by (simp add: task_7_def)
  from claim read host_with_tasks_ok [of "[task_7 True]"]
  have "dom (Processes (ProcessStat_Collect ProcessStat_New True
               (host_with_tasks [task_7 True]) 0)) =
        {k. \<exists>t\<in>set [task_7 True]. task_spid t = Some k}"
    by blast
  then have tracked: "dom (Processes pid_7_tracked) = {''7''}"
    by (simp add: pid_7_tracked_def task_spid_task_7)
  from pass old new tracked show ?thesis
    by (intro conjI)
qed

text \<open>
  C3, as the specification states it, fails: a malformed field does not leave
  the counter at its previous value. After \<^verbatim>\<open>cpu 100 ...\<close> the \<^verbatim>\<open>User\<close> counter
  holds 100; the next line has the malformed field \<^verbatim>\<open>2x0\<close> and the counter
  holds 0.
\<close>

theorem malformed_field_counterexample:
  "Counter_Get (PerCPU.User (All (projr
     (CPUStat_Collect CPUStat_New (Some [''cpu 100 0 50 850 0 0 0 0 0'']) 0)))) = 100 \<and>
   \<not> isl (feed_two_lines ''cpu 100 0 50 850 0 0 0 0 0'' ''cpu 2x0 0 100 1700 0 0 0 0 0'') \<and>
   Counter_Get (PerCPU.User (All (projr
     (feed_two_lines ''cpu 100 0 50 850 0 0 0 0 0'' ''cpu 2x0 0 100 1700 0 0 0 0 0'')))) = 0"
  by (simp add: feed_two_lines_def CPUStat_Collect_def CPUStat_Collect_line_def split_ws_def
        is_space_def parseCPUline_def populateComputedStats_def ParseUint_def
        strconv_ParseUint_def is_digit_def digits_value_def Counter_Set_def Counter_Get_def
        ComputeRate_def NewPerCPU_def NewCounter_def NewGauge_def PerCPU_Usage_def
        PerCPU_UserSpace_def PerCPU_Kernel_def CPUStat_New_def Let_def)

text \<open>
  C3, amended: \<^verbatim>\<open>misc.ParseUint\<close> turns a field that is not an unsigned decimal
  integer into 0 and the collector stores it: each of the nine counters of a
  \<^verbatim>\<open>/proc/stat\<close> line, and each of the three counters of a \<^verbatim>\<open>cpu.stat\<close>
  line, is set to 0 when its field is malformed.
\<close>

theorem malformed_field_sets_zero:
  "(strconv_ParseUint x = None \<longrightarrow> ParseUint x = 0) \<and>
   (parseCPUline s f now = Inr s' \<longrightarrow>
      (strconv_ParseUint (f ! 1) = None \<longrightarrow> Counter_Get (PerCPU.User s') = 0) \<and>
      (strconv_ParseUint (f ! 2) = None \<longrightarrow> Counter_Get (PerCPU.UserLowPrio s') = 0) \<and>
      (strconv_ParseUint (f ! 3) = None \<longrightarrow> Counter_Get (PerCPU.System s') = 0) \<and>
      (strconv_ParseUint (f ! 4) = None \<longrightarrow> Counter_Get (PerCPU.Idle s') = 0) \<and>
      (strconv_ParseUint (f ! 5) = None \<longrightarrow> Counter_Get (PerCPU.Iowait s') = 0) \<and>
      (strconv_ParseUint (f ! 6) = None \<longrightarrow> Counter_Get (PerCPU.Irq s') = 0) \<and>
      (strconv_ParseUint (f ! 7) = None \<longrightarrow> Counter_Get (PerCPU.Softirq s') = 0) \<and>
      (strconv_ParseUint (f ! 8) = None \<longrightarrow> Counter_Get (PerCPU.Steal s') = 0) \<and>
      (strconv_ParseUint (f ! 9) = None \<longrightarrow> Counter_Get (PerCPU.Guest s') = 0)) \<and>
   (split_ws2 line = [''nr_periods'', v] \<and> strconv_ParseUint v = None \<longrightarrow>
      (\<exists>g'. cpu_stat_line g line now = Inr g' \<and> Counter_Get (Nr_periods g') = 0)) \<and>
   (split_ws2 line = [''nr_throttled'', v] \<and> strconv_ParseUint v = None \<longrightarrow>
      (\<exists>g'. cpu_stat_line g line now = Inr g' \<and> Counter_Get (Nr_throttled g') = 0)) \<and>
   (split_ws2 line = [''throttled_time'', v] \<and> strconv_ParseUint v = None \<longrightarrow>
      (\<exists>g'. cpu_stat_line g line now = Inr g' \<and> Counter_Get (Throttled_time g') = 0))"
proof -
  have cpu: "parseCPUline s f now = Inr s' \<longrightarrow>
      (strconv_ParseUint (f ! 1) = None \<longrightarrow> Counter_Get (PerCPU.User s') = 0) \<and>
      (strconv_ParseUint (f ! 2) = None \<longrightarrow> Counter_Get (PerCPU.UserLowPrio s') = 0) \<and>
      (strconv_ParseUint (f ! 3) = None \<longrightarrow> Counter_Get (PerCPU.System s') = 0) \<and>
      (strconv_ParseUint (f ! 4) = None \<longrightarrow> Counter_Get (PerCPU.Idle s') = 0) \<and>
      (strconv_ParseUint (f ! 5) = None \<longrightarrow> Counter_Get (PerCPU.Iowait s') = 0) \<and>
      (strconv_ParseUint (f ! 6) = None \<longrightarrow> Counter_Get (PerCPU.Irq s') = 0) \<and>
      (strconv_ParseUint (f ! 7) = None \<longrightarrow> Counter_Get (PerCPU.Softirq s') = 0) \<and>
      (strconv_ParseUint (f ! 8) = None \<longrightarrow> Counter_Get (PerCPU.Steal s') = 0) \<and>
      (strconv_ParseUint (f ! 9) = None \<longrightarrow> Counter_Get (PerCPU.Guest s') = 0)"
    using parseCPUline_Inr [of s f now s'] by (simp add: ParseUint_malformed)
  have cg: "split_ws2 line = [k, v] \<and> strconv_ParseUint v = None \<longrightarrow>
      (k = ''nr_periods'' \<longrightarrow> (\<exists>g'. cpu_stat_line g line now = Inr g' \<and> Counter_Get (Nr_periods g') = 0)) \<and>
      (k = ''nr_throttled'' \<longrightarrow> (\<exists>g'. cpu_stat_line g line now = Inr g' \<and> Counter_Get (Nr_throttled g') = 0)) \<and>
      (k = ''throttled_time'' \<longrightarrow> (\<exists>g'. cpu_stat_line g line now = Inr g' \<and> Counter_Get (Throttled_time g') = 0))" for k
    by (simp add: cpu_stat_line_def Let_def ParseUint_malformed)
  from cpu cg [of "''nr_periods''"] cg [of "''nr_throttled''"] cg [of "''throttled_time''"]
  show ?thesis
    by (simp add: ParseUint_malformed)
qed

theorem malformed_field_sets_zero_witness:
  "strconv_ParseUint ''2x0'' = None \<and>
   ParseUint ''2x0'' = 0 \<and>
   parseCPUline NewPerCPU
     [''cpu'', ''2x0'', ''0'', ''100'', ''1700'', ''0'', ''0'', ''0'', ''0'', ''0''] 0 =
     Inr (projr (parseCPUline NewPerCPU
       [''cpu'', ''2x0'', ''0'', ''100'', ''1700'', ''0'', ''0'', ''0'', ''0'', ''0''] 0)) \<and>
   Counter_Get (PerCPU.User (projr (parseCPUline NewPerCPU
       [''cpu'', ''2x0'', ''0'', ''100'', ''1700'', ''0'', ''0'', ''0'', ''0'', ''0''] 0))) = 0"
proof -
  let ?f = "[''cpu'', ''2x0'', ''0'', ''100'', ''1700'', ''0'', ''0'', ''0'', ''0'', ''0'']"
  have bad: "strconv_ParseUint ''2x0'' = None"
    by (simp add: strconv_ParseUint_def is_digit_def)
  have field: "strconv_ParseUint (?f ! 1) = None"
    using bad by simp
  have parse: "parseCPUline NewPerCPU ?f 0 = Inr (projr (parseCPUline NewPerCPU ?f 0))"
    by (simp add: parseCPUline_def Let_def)
  note claim = malformed_field_sets_zero
      [of "''2x0''" NewPerCPU ?f 0 "projr (parseCPUline NewPerCPU ?f 0)"]
  from claim bad have zero: "ParseUint ''2x0'' = 0"
    by blast
  from claim parse field
  have "Counter_Get (PerCPU.User (projr (parseCPUline NewPerCPU ?f 0))) = 0"
    by blast
  with bad zero parse show ?thesis
    by (intro conjI)
qed

text \<open>
  C4, as the specification states it, fails twice. The two lines as written
  have five fields, and \<^verbatim>\<open>parseCPUline\<close> panics on a line of fewer than ten.
  With the five missing fields filled with zeros, \<^verbatim>\<open>Total\<close> goes from 1000 to
  2000, so its rate is 1000 per second, not 900, and \<^verbatim>\<open>Usage()\<close> is 15, not
  16.67.
\<close>

theorem cpu_two_samples_counterexample:
  "feed_two_lines ''cpu 100 0 50 850'' ''cpu 200 0 100 1700'' = Inl IndexOutOfRange \<and>
   \<not> isl (feed_two_lines ''cpu 100 0 50 850 0 0 0 0 0'' ''cpu 200 0 100 1700 0 0 0 0 0'') \<and>
   ComputeRate (PerCPU.Total (All (projr
     (feed_two_lines ''cpu 100 0 50 850 0 0 0 0 0'' ''cpu 200 0 100 1700 0 0 0 0 0'')))) \<noteq> Fin 900 \<and>
   PerCPU_Usage (All (projr
     (feed_two_lines ''cpu 100 0 50 850 0 0 0 0 0'' ''cpu 200 0 100 1700 0 0 0 0 0''))) = Fin 15"
  by (simp add: feed_two_lines_def CPUStat_Collect_def CPUStat_Collect_line_def split_ws_def
        is_space_def parseCPUline_def populateComputedStats_def ParseUint_def
        strconv_ParseUint_def is_digit_def digits_value_def Counter_Set_def Counter_Get_def
        ComputeRate_def NewPerCPU_def NewCounter_def NewGauge_def PerCPU_Usage_def
        PerCPU_UserSpace_def PerCPU_Kernel_def CPUStat_New_def Let_def)

text \<open>
  C4, amended: the line \<^verbatim>\<open>cpu 100 0 50 850 0 0 0 0 0\<close> and, one second later,
  \<^verbatim>\<open>cpu 200 0 100 1700 0 0 0 0 0\<close> give a \<^verbatim>\<open>User\<close> rate of 100 per second, a
  \<^verbatim>\<open>System\<close> rate of 50, a \<^verbatim>\<open>Total\<close> rate of 1000 and a \<^verbatim>\<open>Usage()\<close> of 15.
\<close>

theorem cpu_two_samples:
  "\<not> isl (feed_two_lines ''cpu 100 0 50 850 0 0 0 0 0'' ''cpu 200 0 100 1700 0 0 0 0 0'') \<and>
   ComputeRate (PerCPU.User (All (projr
     (feed_two_lines ''cpu 100 0 50 850 0 0 0 0 0'' ''cpu 200 0 100 1700 0 0 0 0 0'')))) = Fin 100 \<and>
   ComputeRate (PerCPU.System (All (projr
     (feed_two_lines ''cpu 100 0 50 850 0 0 0 0 0'' ''cpu 200 0 100 1700 0 0 0 0 0'')))) = Fin 50 \<and>
   ComputeRate (PerCPU.Total (All (projr
     (feed_two_lines ''cpu 100 0 50 850 0 0 0 0 0'' ''cpu 200 0 100 1700 0 0 0 0 0'')))) = Fin 1000 \<and>
   PerCPU_Usage (All (projr
     (feed_two_lines ''cpu 100 0 50 850 0 0 0 0 0'' ''cpu 200 0 100 1700 0 0 0 0 0''))) = Fin 15"
  by (simp add: feed_two_lines_def CPUStat_Collect_def CPUStat_Collect_line_def split_ws_def
        is_space_def parseCPUline_def populateComputedStats_def ParseUint_def
        strconv_ParseUint_def is_digit_def digits_value_def Counter_Set_def Counter_Get_def
        ComputeRate_def NewPerCPU_def NewCounter_def NewGauge_def PerCPU_Usage_def
        PerCPU_UserSpace_def PerCPU_Kernel_def CPUStat_New_def Let_def)

text \<open>
  C5, as the specification states it, fails for the process collector: pid 7
  is tracked, the next pass finds its task and reads its pid and basic info,
  the absolute-time \<^verbatim>\<open>task_info\<close> fails, and the entity is swept at the end of
  that pass.
\<close>

theorem failed_read_swept_counterexample:
  "''7'' \<in> dom (Processes pid_7_tracked) \<and>
   pid_for_task (task_7 False) = Some 7 \<and>
   TASK_ABSOLUTETIME_INFO (task_7 False) = None \<and>
   ''7'' \<notin> dom (Processes
      (ProcessStat_Collect pid_7_tracked False (host_with_tasks [task_7 False]) 1000000000))"
proof -
  have info: "TASK_ABSOLUTETIME_INFO (task_7 False) = None"
    "TASK_ABSOLUTETIME_INFO (task_7 True) \<noteq> None"
    "pid_for_task (task_7 False) = Some 7"
    by (simp_all add: task_7_def)
  show ?thesis
    unfolding pid_7_tracked_def
    by (simp add: ProcessStat_Collect_dom [OF host_with_tasks_ok] task_spid_task_7
          ProcessStat_New_def info)
qed

text \<open>
  C5, amended. In the process collector a tracked entity stays after a pass
  that obtains the task list exactly when some task of its pid was read in
  full: when the reads of its tasks fail it is swept at the end of that pass,
  and the entities read in full stay. In the filesystem and cgroup collectors
  an entity whose read fails (\<^verbatim>\<open>statfs\<close> returns an error, \<^verbatim>\<open>cpu.stat\<close> cannot
  be opened) stays in the map unchanged after a pass that returns.
\<close>

theorem failed_read:
  "(processor_set_default host \<and> host_processor_set_priv host \<and>
    processor_set_tasks host = Some ts \<and> k \<in> dom (Processes p) \<and>
    \<not> (\<exists>t\<in>set ts. task_spid t = Some k \<and> TASK_ABSOLUTETIME_INFO t \<noteq> None) \<longrightarrow>
      k \<notin> dom (Processes (ProcessStat_Collect p ca host now))) \<and>
   (processor_set_default host \<and> host_processor_set_priv host \<and>
    processor_set_tasks host = Some ts \<and>
    (\<exists>t\<in>set ts. task_spid t = Some k \<and> TASK_ABSOLUTETIME_INFO t \<noteq> None) \<longrightarrow>
      k \<in> dom (Processes (ProcessStat_Collect p ca host now))) \<and>
   (FSStat_Collect s mtab statfs = Inr s' \<and> FS s k = Some e \<and> statfs (mp e) = None \<longrightarrow>
      FS s' k = Some e) \<and>
   (CgroupStat_Collect ticks c cgroups mountpoint fs now = Inr c' \<and> k \<in> set cgroups \<and>
    Cgroups c k = Some g \<and> fs (path g @ ''/'' @ ''cpu.stat'') = None \<longrightarrow>
      Cgroups c' k = Some g)"
proof -
  have swept: "processor_set_default host \<and> host_processor_set_priv host \<and>
    processor_set_tasks host = Some ts \<and> k \<in> dom (Processes p) \<and>
    \<not> (\<exists>t\<in>set ts. task_spid t = Some k \<and> TASK_ABSOLUTETIME_INFO t \<noteq> None) \<longrightarrow>
      k \<notin> dom (Processes (ProcessStat_Collect p ca host now))"
  proof (intro impI, elim conjE)
    assume host: "processor_set_default host" "host_processor_set_priv host"
      "processor_set_tasks host = Some ts"
      and "k \<in> dom (Processes p)"
      "\<not> (\<exists>t\<in>set ts. task_spid t = Some k \<and> TASK_ABSOLUTETIME_INFO t \<noteq> None)"
    then show "k \<notin> dom (Processes (ProcessStat_Collect p ca host now))"
      unfolding ProcessStat_Collect_dom [OF host] by blast
  qed
  have kept: "processor_set_default host \<and> host_processor_set_priv host \<and>
    processor_set_tasks host = Some ts \<and>
    (\<exists>t\<in>set ts. task_spid t = Some k \<and> TASK_ABSOLUTETIME_INFO t \<noteq> None) \<longrightarrow>
      k \<in> dom (Processes (ProcessStat_Collect p ca host now))"
  proof (intro impI, elim conjE)
    assume host: "processor_set_default host" "host_processor_set_priv host"
      "processor_set_tasks host = Some ts"
      and "\<exists>t\<in>set ts. task_spid t = Some k \<and> TASK_ABSOLUTETIME_INFO t \<noteq> None"
    then show "k \<in> dom (Processes (ProcessStat_Collect p ca host now))"
      unfolding ProcessStat_Collect_dom [OF host] by blast
  qed
  have mount: "FSStat_Collect s mtab statfs = Inr s' \<and> FS s k = Some e \<and>
    statfs (mp e) = None \<longrightarrow> FS s' k = Some e"
  proof (intro impI, elim conjE)
    assume "FSStat_Collect s mtab statfs = Inr s'" "FS s k = Some e" "statfs (mp e) = None"
    then show "FS s' k = Some e"
      by (rule FSStat_Collect_failed)
  qed
  have cgroup: "CgroupStat_Collect ticks c cgroups mountpoint fs now = Inr c' \<and>
    k \<in> set cgroups \<and> Cgroups c k = Some g \<and> fs (path g @ ''/'' @ ''cpu.stat'') = None \<longrightarrow>
      Cgroups c' k = Some g"
  proof (intro impI, elim conjE)
    assume "CgroupStat_Collect ticks c cgroups mountpoint fs now = Inr c'" "k \<in> set cgroups"
      "Cgroups c k = Some g" "fs (path g @ ''/'' @ ''cpu.stat'') = None"
    then show "Cgroups c' k = Some g"
      by (rule CgroupStat_Collect_failed)
  qed
  from swept kept mount cgroup show ?thesis
    by (intro conjI)
qed

theorem failed_read_witness:
  "''7'' \<in> dom (Processes pid_7_tracked) \<and>
   task_spid (task_7 False) = Some ''7'' \<and>
   TASK_ABSOLUTETIME_INFO (task_7 False) = None \<and>
   ''7'' \<notin> dom (Processes
      (ProcessStat_Collect pid_7_tracked False (host_with_tasks [task_7 False]) 1000000000)) \<and>
   ''7'' \<in> dom (Processes
      (ProcessStat_Collect pid_7_tracked False (host_with_tasks [task_7 True]) 1000000000))"
proof -
  have info: "TASK_ABSOLUTETIME_INFO (task_7 False) = None"
    "TASK_ABSOLUTETIME_INFO (task_7 True) \<noteq> None"
    by (simp_all add: task_7_def)
  have tracked: "''7'' \<in> dom (Processes pid_7_tracked)"
    unfolding pid_7_tracked_def
    by (simp add: ProcessStat_Collect_dom [OF host_with_tasks_ok] task_spid_task_7 info)
  have failing: "\<not> (\<exists>t\<in>set [task_7 False].
      task_spid t = Some ''7'' \<and> TASK_ABSOLUTETIME_INFO t \<noteq> None)"
    by (simp add: info)
  have reading: "\<exists>t\<in>set [task_7 True].
      task_spid t = Some ''7'' \<and> TASK_ABSOLUTETIME_INFO t \<noteq> None"
    by (simp add: info task_spid_task_7)
  from failed_read [of "host_with_tasks [task_7 False]" "[task_7 False]" "''7''" pid_7_tracked
         False 1000000000, THEN conjunct1]
       host_with_tasks_ok [of "[task_7 False]"] tracked failing
  have swept: "''7'' \<notin> dom (Processes
      (ProcessStat_Collect pid_7_tracked False (host_with_tasks [task_7 False]) 1000000000))"
    by blast
  from failed_read [of "host_with_tasks [task_7 True]" "[task_7 True]" "''7''" pid_7_tracked
         False 1000000000, THEN conjunct2, THEN conjunct1]
       host_with_tasks_ok [of "[task_7 True]"] reading
  have kept: "''7'' \<in> dom (Processes
      (ProcessStat_Collect pid_7_tracked False (host_with_tasks [task_7 True]) 1000000000))"
    by blast
  from tracked task_spid_task_7 [of False] info(1) swept kept show ?thesis
    by (intro conjI)
qed

text \<open>
  C6, as the specification states it, fails where the quota is unset: the
  file holds \<^verbatim>\<open>-1\<close>, \<^verbatim>\<open>misc.ReadUintFromFile\<close> parses it as an unsigned
  integer, the parse fails and the stored quota is 0. With a period of 100000
  \<^verbatim>\<open>Quota()\<close> is 0, not negative.
\<close>

theorem quota_unset_counterexample:
  "\<not> isl (PerCgroupStat_Collect 100 (NewPerCgroupStat ''/cg/a'' ''/cg'') quota_unset_files 0) \<and>
   Cfs_quota_us (projr
     (PerCgroupStat_Collect 100 (NewPerCgroupStat ''/cg/a'' ''/cg'') quota_unset_files 0)) = Fin 0 \<and>
   Cfs_period_us (projr
     (PerCgroupStat_Collect 100 (NewPerCgroupStat ''/cg/a'' ''/cg'') quota_unset_files 0)) = Fin 100000 \<and>
   PerCgroupStat_Quota (projr
     (PerCgroupStat_Collect 100 (NewPerCgroupStat ''/cg/a'' ''/cg'') quota_unset_files 0)) = Fin 0"
  by (simp add: PerCgroupStat_Collect_def cpu_stat_line_def split_ws2_def is_space_def
        getCgroupCPUTimes_def ReadUintFromFile_def ParseUint_def strconv_ParseUint_def
        is_digit_def digits_value_def Counter_Set_def NewCounter_def NewGauge_def
        NewPerCgroupStat_def PerCgroupStat_Kernel_def PerCgroupStat_Usage_def
        PerCgroupStat_Userspace_def PerCgroupStat_Quota_def float64_of_uint64_def
        quota_unset_files_def Let_def)

text \<open>
  C6, amended: \<^verbatim>\<open>Quota()\<close> is the ratio of the two stored gauges, 2 for
  200000 and 100000. A \<^verbatim>\<open>Collect\<close> that can open \<^verbatim>\<open>cpu.stat\<close> stores in them
  what \<^verbatim>\<open>misc.ReadUintFromFile\<close> reads from \<^verbatim>\<open>cpu.cfs_quota_us\<close> and
  \<^verbatim>\<open>cpu.cfs_period_us\<close>, which is never negative. When the quota file
  starts with the line \<^verbatim>\<open>-1\<close> the stored quota is 0 and \<^verbatim>\<open>Quota()\<close> is 0,
  or NaN when the stored period is 0 as well.
\<close>

theorem PerCgroupStat_Quota_unsigned:
  "PerCgroupStat_Quota s = f_div (Cfs_quota_us s) (Cfs_period_us s) \<and>
   PerCgroupStat_Quota (s\<lparr>Cfs_quota_us := Fin 200000, Cfs_period_us := Fin 100000\<rparr>) = Fin 2 \<and>
   (PerCgroupStat_Collect ticks s fs now = Inr s' \<and>
    fs (path s @ ''/'' @ ''cpu.stat'') = Some lines \<longrightarrow>
      Cfs_quota_us s' =
        float64_of_uint64 (ReadUintFromFile fs (path s @ ''/'' @ ''cpu.cfs_quota_us'')) \<and>
      Cfs_period_us s' =
        float64_of_uint64 (ReadUintFromFile fs (path s @ ''/'' @ ''cpu.cfs_period_us'')) \<and>
      \<not> f_gt (Fin 0) (Cfs_quota_us s')) \<and>
   (PerCgroupStat_Collect ticks s fs now = Inr s' \<and>
    fs (path s @ ''/'' @ ''cpu.stat'') = Some lines \<and>
    fs (path s @ ''/'' @ ''cpu.cfs_quota_us'') = Some (''-1'' # rest) \<longrightarrow>
      Cfs_quota_us s' = Fin 0 \<and>
      (PerCgroupStat_Quota s' = Fin 0 \<or> PerCgroupStat_Quota s' = NaN))"
proof -
  have ratio: "PerCgroupStat_Quota s = f_div (Cfs_quota_us s) (Cfs_period_us s)"
    by (simp add: PerCgroupStat_Quota_def)
  have two: "PerCgroupStat_Quota (s\<lparr>Cfs_quota_us := Fin 200000, Cfs_period_us := Fin 100000\<rparr>) = Fin 2"
    by (simp add: PerCgroupStat_Quota_def)
  have stored: "PerCgroupStat_Collect ticks s fs now = Inr s' \<and>
    fs (path s @ ''/'' @ ''cpu.stat'') = Some lines \<longrightarrow>
      Cfs_quota_us s' =
        float64_of_uint64 (ReadUintFromFile fs (path s @ ''/'' @ ''cpu.cfs_quota_us'')) \<and>
      Cfs_period_us s' =
        float64_of_uint64 (ReadUintFromFile fs (path s @ ''/'' @ ''cpu.cfs_period_us'')) \<and>
      \<not> f_gt (Fin 0) (Cfs_quota_us s')"
    using PerCgroupStat_Collect_gauges [of ticks s fs now s' lines]
    by (auto simp: float64_of_uint64_not_negative)
  have unset: "PerCgroupStat_Collect ticks s fs now = Inr s' \<and>
    fs (path s @ ''/'' @ ''cpu.stat'') = Some lines \<and>
    fs (path s @ ''/'' @ ''cpu.cfs_quota_us'') = Some (''-1'' # rest) \<longrightarrow>
      Cfs_quota_us s' = Fin 0 \<and>
      (PerCgroupStat_Quota s' = Fin 0 \<or> PerCgroupStat_Quota s' = NaN)"
  proof (intro impI, elim conjE)
    assume c: "PerCgroupStat_Collect ticks s fs now = Inr s'"
      and l: "fs (path s @ ''/'' @ ''cpu.stat'') = Some lines"
      and q: "fs (path s @ ''/'' @ ''cpu.cfs_quota_us'') = Some (''-1'' # rest)"
    from ReadUintFromFile_malformed
           [of fs "path s @ ''/'' @ ''cpu.cfs_quota_us''" "''-1''" rest, OF q
             strconv_ParseUint_minus_one]
      PerCgroupStat_Collect_gauges [OF c l]
    have quota: "Cfs_quota_us s' = Fin 0"
      and period: "Cfs_period_us s' =
        float64_of_uint64 (ReadUintFromFile fs (path s @ ''/'' @ ''cpu.cfs_period_us''))"
      by (simp_all add: float64_of_uint64_def)
    from f_div_zero_uint64 [of "ReadUintFromFile fs (path s @ ''/'' @ ''cpu.cfs_period_us'')"]
    have "PerCgroupStat_Quota s' = Fin 0 \<or> PerCgroupStat_Quota s' = NaN"
      unfolding PerCgroupStat_Quota_def quota period .
    with quota show "Cfs_quota_us s' = Fin 0 \<and>
      (PerCgroupStat_Quota s' = Fin 0 \<or> PerCgroupStat_Quota s' = NaN)"
      by simp
  qed
  from ratio two stored unset show ?thesis
    by (intro conjI)
qed

theorem PerCgroupStat_Quota_unsigned_witness:
  "PerCgroupStat_Collect 100 (NewPerCgroupStat ''/cg/a'' ''/cg'') quota_unset_files 0 =
     Inr (projr (PerCgroupStat_Collect 100 (NewPerCgroupStat ''/cg/a'' ''/cg'')
                   quota_unset_files 0)) \<and>
   quota_unset_files ''/cg/a/cpu.cfs_quota_us'' = Some [''-1''] \<and>
   Cfs_quota_us (projr (PerCgroupStat_Collect 100 (NewPerCgroupStat ''/cg/a'' ''/cg'')
                   quota_unset_files 0)) = Fin 0 \<and>
   (PerCgroupStat_Quota (projr (PerCgroupStat_Collect 100 (NewPerCgroupStat ''/cg/a'' ''/cg'')
                   quota_unset_files 0)) = Fin 0 \<or>
    PerCgroupStat_Quota (projr (PerCgroupStat_Collect 100 (NewPerCgroupStat ''/cg/a'' ''/cg'')
                   quota_unset_files 0)) = NaN)"
proof -
  let ?s = "NewPerCgroupStat ''/cg/a'' ''/cg''"
  let ?r = "PerCgroupStat_Collect 100 ?s quota_unset_files 0"
  have pass: "?r = Inr (projr ?r)"
    by (simp add: PerCgroupStat_Collect_def cpu_stat_line_def split_ws2_def is_space_def
          getCgroupCPUTimes_def NewPerCgroupStat_def quota_unset_files_def Let_def)
  have stat: "quota_unset_files (path ?s @ ''/'' @ ''cpu.stat'') =
      Some [''nr_periods 0'', ''nr_throttled 0'', ''throttled_time 0'']"
    by (simp add: NewPerCgroupStat_def quota_unset_files_def)
  have quota: "quota_unset_files (path ?s @ ''/'' @ ''cpu.cfs_quota_us'') = Some (''-1'' # [])"
    by (simp add: NewPerCgroupStat_def quota_unset_files_def)
  have qfile: "quota_unset_files ''/cg/a/cpu.cfs_quota_us'' = Some [''-1'']"
    by (simp add: quota_unset_files_def)
  from PerCgroupStat_Quota_unsigned
         [of ?s 100 quota_unset_files 0 "projr ?r"
             "[''nr_periods 0'', ''nr_throttled 0'', ''throttled_time 0'']" "[]"]
       pass stat quota
  have "Cfs_quota_us (projr ?r) = Fin 0 \<and>
        (PerCgroupStat_Quota (projr ?r) = Fin 0 \<or> PerCgroupStat_Quota (projr ?r) = NaN)"
    by blast
  with pass qfile show ?thesis
    by (intro conjI) blast+
qed

text \<open>
  C7, as the specification states it: the cgroup's \<^verbatim>\<open>Kernel()\<close> is the system
  tick rate (\<^verbatim>\<open>Stime\<close>) of its processes, divided by the clock ticks per second
  and multiplied by 100. The code reads \<^verbatim>\<open>Utime\<close> instead, against its own doc
  comment: for the cgroup sampled twice above, with 100 ticks per second, the
  system rate is 50 ticks per second and the user rate 100, and \<^verbatim>\<open>Kernel()\<close>
  returns 100, the value of \<^verbatim>\<open>Userspace()\<close>, where the claim gives 50.
\<close>

theorem PerCgroupStat_Kernel_reads_Utime:
  "\<not> isl cgroup_a_sampled_twice \<and>
   ComputeRate (Stime (projr cgroup_a_sampled_twice)) = Fin 50 \<and>
   ComputeRate (Utime (projr cgroup_a_sampled_twice)) = Fin 100 \<and>
   PerCgroupStat_Kernel 100 (projr cgroup_a_sampled_twice) = Fin 100 \<and>
   PerCgroupStat_Userspace 100 (projr cgroup_a_sampled_twice) = Fin 100"
  by (simp add: cgroup_a_sampled_twice_def cgroup_a_files_def PerCgroupStat_Collect_def
        cpu_stat_lines.simps getCgroupCPUTimes_def getCPUTimes_def strings_Split_def
        ReadUintFromFile_def ParseUint_def strconv_ParseUint_def is_digit_def
        digits_value_def Counter_Set_def ComputeRate_def NewCounter_def NewGauge_def
        NewPerCgroupStat_def PerCgroupStat_Kernel_def PerCgroupStat_Usage_def
        PerCgroupStat_Userspace_def float64_of_uint64_def Let_def)

text \<open>
  C8, as the specification states it, fails: tick 1 does not always collect.
  With 2048 tracked processes \<open>p\<close> is 2, \<^verbatim>\<open>1 % 2\<close> is not 0 and tick 1 calls
  neither \<^verbatim>\<open>Collect(true)\<close> nor \<^verbatim>\<open>Collect(false)\<close>.
\<close>

theorem ticker_second_tick_counterexample:
  "ticker_collects 2048 1 = (False, False)"
  by (simp add: ticker_collects_def Let_def)

text \<open>
  C8, amended: tick 0 makes both calls, \<^verbatim>\<open>Collect(true)\<close> and then
  \<^verbatim>\<open>Collect(false)\<close>, whatever the number of tracked processes. A later tick
  \<open>n\<close> never calls \<^verbatim>\<open>Collect(true)\<close> and calls \<^verbatim>\<open>Collect(false)\<close> exactly when
  fewer than 1024 processes are tracked or \<open>n\<close> is a multiple of the number
  of tracked processes divided by 1024; tick 1 does so exactly when fewer than
  2048 are tracked. The step of the ticker loop is that: a later tick leaves
  the collector as it is, or makes one \<^verbatim>\<open>Collect(false)\<close>.
\<close>

theorem ticker_collects_policy:
  "ticker_collects len 0 = (True, True) \<and>
   ticker_collects len (Suc n) = (False, len < 1024 \<or> Suc n mod (len div 1024) = 0) \<and>
   ticker_collects len 1 = (False, len < 2048) \<and>
   ProcessStat_tick host now (c, 0) =
     (ProcessStat_Collect (ProcessStat_Collect c True host now) False host now, 1) \<and>
   ProcessStat_tick host now (c, Suc n) =
     (if card (dom (Processes c)) < 1024 \<or> Suc n mod (card (dom (Processes c)) div 1024) = 0
      then ProcessStat_Collect c False host now else c,
      Suc n + 1)"
proof -
  have first: "ticker_collects len 0 = (True, True)" for len
    by (simp add: ticker_collects_def Let_def)
  have later: "ticker_collects len (Suc n) =
      (False, len < 1024 \<or> Suc n mod (len div 1024) = 0)" for len
    by (auto simp: ticker_collects_def Let_def)
  have "(len div 1024 < 1 \<or> 1 mod (len div 1024) = 0) = (len < 2048)"
  proof (cases "len div 1024 < 2")
    case True
    then have "len div 1024 = 0 \<or> len div 1024 = 1"
      by arith
    moreover from True have "len < 2048"
      by arith
    ultimately show ?thesis
      by auto
  next
    case False
    then have "1 mod (len div 1024) = 1"
      by simp
    moreover from False have "\<not> len < 2048"
      by arith
    ultimately have "1 mod (len div 1024) = 1" "\<not> len < 2048"
      by simp_all
    with False show ?thesis
      by simp
  qed
  then have second: "ticker_collects len 1 = (False, len < 2048)"
    by (simp add: ticker_collects_def Let_def)
  have tick0: "ProcessStat_tick host now (c, 0) =
     (ProcessStat_Collect (ProcessStat_Collect c True host now) False host now, 1)"
    by (simp add: ProcessStat_tick_def first Let_def)
  have tick: "ProcessStat_tick host now (c, Suc n) =
     (if card (dom (Processes c)) < 1024 \<or> Suc n mod (card (dom (Processes c)) div 1024) = 0
      then ProcessStat_Collect c False host now else c,
      Suc n + 1)"
    by (simp add: ProcessStat_tick_def later Let_def)
  from first later second tick0 tick show ?thesis
    by (intro conjI)
qed

text \<open>
  C9: a filesystem's \<^verbatim>\<open>Usage()\<close> is \<open>(Blocks - Bfree) / Blocks * 100\<close> of the
  stored gauges; with \<open>Blocks = 1000\<close> and \<open>Bfree = 250\<close> it is exactly 75; with
  \<open>Blocks = 0\<close> nothing guards the division and the result is NaN or an
  infinity, whatever the other gauges hold. After a \<^verbatim>\<open>Collect\<close> whose
  \<^verbatim>\<open>statfs\<close> reports 1000 blocks, 250 of them free, it is 75 as well.
\<close>

theorem PerFSStat_Usage_of_gauges:
  "PerFSStat_Usage s =
     f_mul (f_div (f_sub (perFSStatMetrics.Blocks (PerFSStat.Metrics s))
                         (perFSStatMetrics.Bfree (PerFSStat.Metrics s)))
                  (perFSStatMetrics.Blocks (PerFSStat.Metrics s))) (Fin 100) \<and>
   PerFSStat_Usage (s\<lparr>PerFSStat.Metrics := (PerFSStat.Metrics s)
       \<lparr>perFSStatMetrics.Blocks := Fin 1000, perFSStatMetrics.Bfree := Fin 250\<rparr>\<rparr>) = Fin 75 \<and>
   PerFSStat_Usage (s\<lparr>PerFSStat.Metrics := (PerFSStat.Metrics s)
       \<lparr>perFSStatMetrics.Blocks := Fin 0\<rparr>\<rparr>) \<in> {NaN, PInf, NInf} \<and>
   PerFSStat_Usage (PerFSStat_Collect s statfs_ok) = Fin 75"
proof -
  have collected: "PerFSStat_Usage (PerFSStat_Collect s statfs_ok) = Fin 75"
    by (simp add: PerFSStat_Usage_def PerFSStat_Collect_def statfs_ok_def
          float64_of_uint64_def f_sub_def Let_def)
  have zero: "f_mul (f_div (f_sub (Fin 0) x) (Fin 0)) (Fin 100) \<in> {NaN, PInf, NInf}" for x
    by (cases x) (simp_all add: f_sub_def)
  show ?thesis
    using zero collected by (simp add: PerFSStat_Usage_def Let_def f_sub_def)
qed

theorem PerFSStat_Usage_of_gauges_witness:
  "PerFSStat_Usage ((NewPerFSStat ''/'')\<lparr>PerFSStat.Metrics :=
       (PerFSStat.Metrics (NewPerFSStat ''/''))
       \<lparr>perFSStatMetrics.Blocks := Fin 1000, perFSStatMetrics.Bfree := Fin 250\<rparr>\<rparr>) = Fin 75 \<and>
   PerFSStat_Usage (NewPerFSStat ''/'') = NaN"
  using PerFSStat_Usage_of_gauges [of "NewPerFSStat ''/''"]
  by (simp add: NewPerFSStat_def NewGauge_def f_sub_def)



end
